theory Spec2Isabelle
  imports Complex_Main "HOL-Library.AList"
begin

section \<open>History page: the comparison selection\<close>

text \<open>
  The history page keeps the ids of the runs ticked for comparison in a JavaScript
  \<^verbatim>\<open>Set<string>\<close>.  Such a set holds every element once and iterates in insertion
  order (the order matters to \<^verbatim>\<open>compare\<close>, which joins the ids into the URL), so it is
  modelled as a list without duplicates.
\<close>

type_synonym js_set = "string list"

definition set_has :: "js_set \<Rightarrow> string \<Rightarrow> bool" where
  "set_has s x = (x \<in> set s)"

definition set_delete :: "js_set \<Rightarrow> string \<Rightarrow> js_set" where
  "set_delete s x = removeAll x s"

definition set_add :: "js_set \<Rightarrow> string \<Rightarrow> js_set" where
  "set_add s x = (if x \<in> set s then s else s @ [x])"

definition set_size :: "js_set \<Rightarrow> nat" where
  "set_size s = length s"

text \<open>
  \<^verbatim>\<open>
  function toggle(id: string) {
    setSelected((prev) => {
      const next = new Set(prev);
      if (next.has(id)) next.delete(id);
      else if (next.size < 5) next.add(id);
      return next;
    });
  }
  \<close>
  The state update is the function from the previous selection to the next one.
\<close>

definition toggle :: "string \<Rightarrow> js_set \<Rightarrow> js_set" where
  "toggle rid prev =
     (let next = prev
      in if set_has next rid then set_delete next rid
         else if set_size next < 5 then set_add next rid
         else next)"

text \<open>The selection after a sequence of clicks, starting from \<^verbatim>\<open>new Set()\<close>.\<close>

definition selected_after :: "string list \<Rightarrow> js_set" where
  "selected_after clicks = foldl (\<lambda>sel rid. toggle rid sel) [] clicks"

section \<open>Compare page: parameter differences and the metrics table\<close>

text \<open>
  A run's \<^verbatim>\<open>params\<close> is a JavaScript object read by key
  (\<^verbatim>\<open>Record<string, number | string>\<close>); a key that is absent reads as
  \<^verbatim>\<open>undefined\<close>, and the optional run name arrives as \<^verbatim>\<open>null\<close>.
\<close>

datatype jsval = JUndefined | JNull | JNumber real | JString string

type_synonym js_object = "(string \<times> jsval) list"

definition js_get :: "js_object \<Rightarrow> string \<Rightarrow> jsval" where
  "js_get obj key = (case map_of obj key of None \<Rightarrow> JUndefined | Some v \<Rightarrow> v)"

text \<open>
  \<^verbatim>\<open>String(v)\<close>.  How a number prints belongs to the JavaScript runtime, not to
  the repository, so the printer of numbers is a parameter.
\<close>

fun js_String :: "(real \<Rightarrow> string) \<Rightarrow> jsval \<Rightarrow> string" where
  "js_String num_str JUndefined = ''undefined''"
| "js_String num_str JNull = ''null''"
| "js_String num_str (JNumber x) = num_str x"
| "js_String num_str (JString t) = t"

record RunResults =
  res_total_return_pct :: real
  res_buy_hold_return_pct :: real
  res_final_value :: real
  res_trade_count :: real
  res_win_count :: real
  res_loss_count :: real
  res_win_rate :: real
  res_max_drawdown_pct :: real
  res_equity_curve :: "(string \<times> real) list"

record Run =
  run_id :: string
  run_name :: "string option"
  run_symbol :: string
  run_days :: real
  run_params :: js_object
  run_results :: RunResults
  run_created_at :: string

text \<open>\<^verbatim>\<open>(r.results as unknown as Record<string, number>)[m.key]\<close>\<close>

definition results_get :: "RunResults \<Rightarrow> string \<Rightarrow> real option" where
  "results_get r key =
     (if key = ''total_return_pct'' then Some (res_total_return_pct r)
      else if key = ''buy_hold_return_pct'' then Some (res_buy_hold_return_pct r)
      else if key = ''final_value'' then Some (res_final_value r)
      else if key = ''trade_count'' then Some (res_trade_count r)
      else if key = ''win_count'' then Some (res_win_count r)
      else if key = ''loss_count'' then Some (res_loss_count r)
      else if key = ''win_rate'' then Some (res_win_rate r)
      else if key = ''max_drawdown_pct'' then Some (res_max_drawdown_pct r)
      else None)"

definition PARAM_LABELS :: "(string \<times> string) list" where
  "PARAM_LABELS =
     [(''capital'', ''Capital''),
      (''position_size_pct'', ''Position Size %''),
      (''rsi_period'', ''RSI Period''),
      (''rsi_oversold'', ''RSI Oversold''),
      (''rsi_overbought'', ''RSI Overbought''),
      (''macd_fast'', ''MACD Fast''),
      (''macd_slow'', ''MACD Slow''),
      (''macd_signal'', ''MACD Signal''),
      (''sma_short'', ''SMA Short''),
      (''sma_long'', ''SMA Long''),
      (''days'', ''Lookback Days'')]"

text \<open>\<^verbatim>\<open>const allParamKeys = Object.keys(PARAM_LABELS);\<close>\<close>

definition allParamKeys :: "string list" where
  "allParamKeys = map fst PARAM_LABELS"

text \<open>
  \<^verbatim>\<open>
  const diffParams = allParamKeys.filter((key) => {
    const values = runs.map((r) => r.params[key]);
    return new Set(values.map(String)).size > 1;
  });
  \<close>
  The size of the set built from a list is the number of its distinct elements.
\<close>

definition diffParams :: "(real \<Rightarrow> string) \<Rightarrow> Run list \<Rightarrow> string list" where
  "diffParams num_str runs =
     filter (\<lambda>key.
        let vals = map (\<lambda>r. js_get (run_params r) key) runs
        in length (remdups (map (js_String num_str) vals)) > 1) allParamKeys"

text \<open>The six rows of the metrics table: key and label (the formatter is a parameter).\<close>

definition metrics :: "(string \<times> string) list" where
  "metrics =
     [(''total_return_pct'', ''Total Return %''),
      (''buy_hold_return_pct'', ''Buy & Hold %''),
      (''final_value'', ''Final Value''),
      (''max_drawdown_pct'', ''Max Drawdown''),
      (''trade_count'', ''Trades''),
      (''win_rate'', ''Win Rate'')]"

fun string_of_nat :: "nat \<Rightarrow> string" where
  "string_of_nat n =
     (if n < 10 then [''0123456789'' ! n]
      else string_of_nat (n div 10) @ [''0123456789'' ! (n mod 10)])"

declare string_of_nat.simps [simp del]

text \<open>\<^verbatim>\<open>r.name || `Run ${i + 1}`\<close>: a null or empty name is falsy.\<close>

definition run_label :: "Run \<Rightarrow> nat \<Rightarrow> string" where
  "run_label r i =
     (case run_name r of
        None \<Rightarrow> ''Run '' @ string_of_nat (i + 1)
      | Some n \<Rightarrow> if n = [] then ''Run '' @ string_of_nat (i + 1) else n)"

text \<open>
  The table: a header row with the cell \<^verbatim>\<open>Metric\<close> and one cell per run, then one
  row per metric with the label and one formatted cell per run.
\<close>

definition metrics_header :: "Run list \<Rightarrow> string list" where
  "metrics_header runs = ''Metric'' # map (\<lambda>(r, i). run_label r i) (zip runs [0..<length runs])"

definition metrics_rows :: "(string \<Rightarrow> real \<Rightarrow> string) \<Rightarrow> Run list \<Rightarrow> (string \<times> string option list) list" where
  "metrics_rows fmt runs =
     map (\<lambda>(key, label).
            (label, map (\<lambda>r. map_option (fmt key) (results_get (run_results r) key)) runs))
         metrics"

record CompareView =
  view_diff :: "string list"
  view_header :: "string list"
  view_rows :: "(string \<times> string option list) list"

text \<open>
  \<^verbatim>\<open>CompareContent\<close> once the runs are loaded: fewer than two runs give the message
  \<^verbatim>\<open>Select at least 2 runs to compare.\<close> and no table.
\<close>

definition CompareContent ::
  "(real \<Rightarrow> string) \<Rightarrow> (string \<Rightarrow> real \<Rightarrow> string) \<Rightarrow> Run list \<Rightarrow> CompareView option" where
  "CompareContent num_str fmt runs =
     (if length runs < 2 then None
      else Some \<lparr>view_diff = diffParams num_str runs,
                 view_header = metrics_header runs,
                 view_rows = metrics_rows fmt runs\<rparr>)"

text \<open>
  A printer for the numbers of the examples, all of them integral: the sign and the decimal
  digits of the integral part.
\<close>

definition integral_string :: "real \<Rightarrow> string" where
  "integral_string x = (if x < 0 then ''-'' else []) @ string_of_nat (nat \<lfloor>\<bar>x\<bar>\<rfloor>)"

definition plain_fmt :: "string \<Rightarrow> real \<Rightarrow> string" where
  "plain_fmt key v = integral_string v"

text \<open>Example runs: the parameters as \<^verbatim>\<open>BacktestRequest.model_dump()\<close> stores them.\<close>

definition example_params :: "string \<Rightarrow> real \<Rightarrow> js_object" where
  "example_params symb oversold =
     [(''name'', JNull), (''symbol'', JString symb), (''timeframe'', JString ''1h''),
      (''days'', JNumber 90), (''capital'', JNumber 1000), (''position_size_pct'', JNumber 20),
      (''rsi_period'', JNumber 14), (''rsi_oversold'', JNumber oversold),
      (''rsi_overbought'', JNumber 70), (''macd_fast'', JNumber 12), (''macd_slow'', JNumber 26),
      (''macd_signal'', JNumber 9), (''sma_short'', JNumber 10), (''sma_long'', JNumber 20)]"

definition example_results :: RunResults where
  "example_results =
     \<lparr>res_total_return_pct = 0, res_buy_hold_return_pct = 0, res_final_value = 1000,
      res_trade_count = 0, res_win_count = 0, res_loss_count = 0, res_win_rate = 0,
      res_max_drawdown_pct = 0,
      res_equity_curve = [(''2026-01-01T00:00:00+00:00'', 1000)]\<rparr>"

definition example_run :: "string \<Rightarrow> string \<Rightarrow> real \<Rightarrow> Run" where
  "example_run rid symb oversold =
     \<lparr>run_id = rid, run_name = None, run_symbol = symb, run_days = 90,
      run_params = example_params symb oversold, run_results = example_results,
      run_created_at = ''2026-02-16T00:00:00+00:00''\<rparr>"

section \<open>The backtest engine: data\<close>

text \<open>
  The engine is the Python that the implementation plan
  (\<^verbatim>\<open>docs/plans/2026-02-16-backtest-ui.md\<close>) gives in full: the class
  \<^verbatim>\<open>TechnicalProcessor\<close>, the class \<^verbatim>\<open>BacktestRunner\<close>, the request model
  \<^verbatim>\<open>BacktestRequest\<close> and the endpoint \<^verbatim>\<open>run_backtest\<close>.  A Python float is
  modelled as the real number it stands for, and every operation on floats rounds its exact
  result to the nearest float (\<open>fl\<close> below).  A \<^verbatim>\<open>datetime\<close> is its number of
  seconds, and an exception is a value of the type \<open>error\<close>.
\<close>

datatype error = IndexError | KeyError | ZeroDivisionError | ValidationError | HTTPException nat

definition bind_err :: "error + 'a \<Rightarrow> ('a \<Rightarrow> error + 'b) \<Rightarrow> error + 'b" where
  "bind_err m f = (case m of Inl e \<Rightarrow> Inl e | Inr x \<Rightarrow> f x)"

text \<open>
  Modelled from the spec: the classes \<^verbatim>\<open>Candle\<close>, \<^verbatim>\<open>Signal\<close>, \<^verbatim>\<open>Trade\<close>,
  \<^verbatim>\<open>Position\<close> and \<^verbatim>\<open>Portfolio\<close> of the analytics package are imported by the
  plan's code and not given there.  Their fields are those of the data model (section 3) and
  of the constructor calls in the plan.
\<close>

record Candle =
  c_coin :: string
  c_timeframe :: string
  c_open :: real
  c_high :: real
  c_low :: real
  c_close :: real
  c_volume :: real
  c_timestamp :: int

record Signal =
  s_coin :: string
  direction :: string
  confidence :: int
  source :: string
  s_timestamp :: int
  expires_at :: int

record Trade =
  t_coin :: string
  side :: string
  t_quantity :: real
  price :: real
  amount :: real
  t_timestamp :: int

record Position =
  p_coin :: string
  entry_price :: real
  quantity :: real
  opened_at :: int
  closed_at :: "int option"
  exit_price :: "real option"
  realized_pnl :: "real option"

text \<open>The dictionary \<^verbatim>\<open>positions\<close> keeps its insertion order: an association list.\<close>

record Portfolio =
  cash :: real
  positions :: "(string \<times> Position) list"

text \<open>\<^verbatim>\<open>MIN_CANDLES = 30\<close> and \<^verbatim>\<open>SIGNAL_TTL = timedelta(hours=1)\<close>, in seconds.\<close>

definition MIN_CANDLES :: nat where
  "MIN_CANDLES = 30"

definition SIGNAL_TTL :: int where
  "SIGNAL_TTL = 3600"

text \<open>\<^verbatim>\<open>int(x)\<close> on a float truncates towards zero.\<close>

definition py_int :: "real \<Rightarrow> int" where
  "py_int x = (if 0 \<le> x then \<lfloor>x\<rfloor> else \<lceil>x\<rceil>)"

text \<open>\<^verbatim>\<open>round(x)\<close> rounds to the nearest integer, a tie to the even one.\<close>

definition py_round :: "real \<Rightarrow> int" where
  "py_round x =
     (let f = \<lfloor>x\<rfloor>; d = x - of_int f
      in if d < 1 / 2 then f else if 1 / 2 < d then f + 1 else if even f then f else f + 1)"

text \<open>
  The exponent of a positive number: the integer \<open>e\<close> with \<open>2 ^ e \<le> x < 2 ^ (e + 1)\<close>.
\<close>

function binary_exponent :: "real \<Rightarrow> int" where
  "binary_exponent x =
     (if x \<le> 0 then 0
      else if x < 1 then binary_exponent (2 * x) - 1
      else if 2 \<le> x then binary_exponent (x / 2) + 1
      else 0)"
  by pat_completeness auto
termination
proof (relation "measure (\<lambda>x. if x < 1 then nat \<lfloor>1 / x\<rfloor> + 1 else nat \<lfloor>x\<rfloor>)", goal_cases)
  case 1
  show ?case by simp
next
  case (2 x)
  then have x: "0 < x" "x < 1" by simp_all
  then have big: "1 < 1 / x" by simp
  show ?case
  proof (cases "2 * x < 1")
    case True
    with x have "1 \<le> 1 / (2 * x)" by (simp add: field_simps)
    then have "1 \<le> \<lfloor>1 / (2 * x)\<rfloor>" by simp
    moreover have "1 / x = 1 / (2 * x) + 1 / (2 * x)" using x by (simp add: field_simps)
    then have "\<lfloor>1 / (2 * x)\<rfloor> + \<lfloor>1 / (2 * x)\<rfloor> \<le> \<lfloor>1 / x\<rfloor>"
      by (metis le_floor_add)
    ultimately have "\<lfloor>1 / (2 * x)\<rfloor> < \<lfloor>1 / x\<rfloor>" by linarith
    moreover have "0 \<le> \<lfloor>1 / (2 * x)\<rfloor>" using x by simp
    ultimately show ?thesis using True x by simp
  next
    case False
    with x have "\<lfloor>2 * x\<rfloor> = 1" by (simp add: floor_eq_iff)
    moreover from big have "1 \<le> \<lfloor>1 / x\<rfloor>" by simp
    ultimately show ?thesis using False x by simp
  qed
next
  case (3 x)
  then have x: "2 \<le> x" by simp
  have "x = x / 2 + x / 2" by simp
  then have "\<lfloor>x / 2\<rfloor> + \<lfloor>x / 2\<rfloor> \<le> \<lfloor>x\<rfloor>" by (metis le_floor_add)
  moreover from x have "1 \<le> \<lfloor>x / 2\<rfloor>" by simp
  ultimately have "\<lfloor>x / 2\<rfloor> < \<lfloor>x\<rfloor>" by linarith
  moreover have "0 \<le> \<lfloor>x / 2\<rfloor>" using x by simp
  ultimately show ?case using x by simp
qed

declare binary_exponent.simps [simp del]

text \<open>
  The float nearest to a real number: a significand of 53 bits, a tie going to the even
  significand, as the arithmetic of Python floats (IEEE 754 binary64) rounds.  The range of
  the exponent is not bounded here: overflow to infinity and the subnormal numbers below
  \<open>2 ^ -1022\<close> are outside the model.  \<^verbatim>\<open>a - b\<close>, \<^verbatim>\<open>a * b\<close> and
  \<^verbatim>\<open>a / b\<close> on floats are \<open>fl (a - b)\<close>, \<open>fl (a * b)\<close> and \<open>fl (a / b)\<close>, and a
  literal such as \<^verbatim>\<open>3.3\<close> is \<open>fl 3.3\<close>.
\<close>

definition fl :: "real \<Rightarrow> real" where
  "fl x =
     (if x = 0 then 0
      else let ulp = 2 powi (binary_exponent \<bar>x\<bar> - 52)
           in of_int (py_round (x / ulp)) * ulp)"

text \<open>
  \<^verbatim>\<open>round(x, 2)\<close>: the exact value of the float is rounded to two decimals, a tie going
  to the even digit, and the result is the float nearest to that decimal.
\<close>

definition py_round2 :: "real \<Rightarrow> real" where
  "py_round2 x = fl (of_int (py_round (x * 100)) / 100)"

text \<open>
  \<^verbatim>\<open>series.iloc[i]\<close> for a position \<open>i\<close>: from the start when \<open>i\<close> is not
  negative, from the end when it is, and \<^verbatim>\<open>IndexError\<close> outside the series.
\<close>

definition iloc :: "'a list \<Rightarrow> int \<Rightarrow> error + 'a" where
  "iloc xs i =
     (if 0 \<le> i \<and> i < int (length xs) then Inr (xs ! nat i)
      else if i < 0 \<and> - int (length xs) \<le> i then Inr (xs ! nat (int (length xs) + i))
      else Inl IndexError)"

section \<open>The backtest engine: signals\<close>

text \<open>
  The indicators come from the library \<^verbatim>\<open>pandas_ta\<close>, which is outside the
  repository.  The processor is therefore given the library as a parameter: each function
  takes the closes of the window and the lengths, and returns \<^verbatim>\<open>None\<close> or a series
  of floats in which \<open>None\<close> is \<^verbatim>\<open>NaN\<close>.  For MACD the series is the histogram,
  the column \<^verbatim>\<open>macd_df.iloc[:, 2]\<close> (an empty frame is an empty column).
\<close>

type_synonym series = "real option list"

record ta_lib =
  ta_rsi :: "real list \<Rightarrow> int \<Rightarrow> series option"
  ta_macd :: "real list \<Rightarrow> int \<Rightarrow> int \<Rightarrow> int \<Rightarrow> series option"
  ta_sma :: "real list \<Rightarrow> int \<Rightarrow> series option"

text \<open>The attributes that \<^verbatim>\<open>TechnicalProcessor.__init__\<close> stores.\<close>

record TechnicalProcessor =
  rsi_period :: int
  rsi_oversold :: int
  rsi_overbought :: int
  macd_fast :: int
  macd_slow :: int
  macd_signal :: int
  sma_short :: int
  sma_long :: int

text \<open>
  \<^verbatim>\<open>
  def _make_signal(self, coin, direction, confidence, source, now):
      return Signal(coin=coin, direction=direction, confidence=confidence,
                    source=source, timestamp=now, expires_at=now + SIGNAL_TTL)
  \<close>
\<close>

definition make_signal :: "string \<Rightarrow> string \<Rightarrow> int \<Rightarrow> string \<Rightarrow> int \<Rightarrow> Signal" where
  "make_signal coin dir conf src now =
     \<lparr>s_coin = coin, direction = dir, confidence = conf, source = src,
      s_timestamp = now, expires_at = now + SIGNAL_TTL\<rparr>"

text \<open>
  \<^verbatim>\<open>
  def _rsi_signals(self, df, coin, now):
      rsi = ta.rsi(df["close"], length=self._rsi_period)
      if rsi is None or rsi.empty:
          return []
      current_rsi = rsi.iloc[-1]
      if pd.isna(current_rsi):
          return []
      if current_rsi < self._rsi_oversold:
          confidence = min(100, int((self._rsi_oversold - current_rsi) * 3.3))
          return [self._make_signal(coin, "bullish", confidence, "technical/rsi_oversold", now)]
      elif current_rsi > self._rsi_overbought:
          confidence = min(100, int((current_rsi - self._rsi_overbought) * 3.3))
          return [self._make_signal(coin, "bearish", confidence, "technical/rsi_overbought", now)]
      return []
  \<close>
\<close>

definition rsi_signals :: "ta_lib \<Rightarrow> TechnicalProcessor \<Rightarrow> real list \<Rightarrow> string \<Rightarrow> int \<Rightarrow> Signal list" where
  "rsi_signals ta self closes coin now =
     (case ta_rsi ta closes (rsi_period self) of
        None \<Rightarrow> []
      | Some rsi \<Rightarrow>
          if rsi = [] then []
          else (case last rsi of
                  None \<Rightarrow> []
                | Some current_rsi \<Rightarrow>
                    if current_rsi < of_int (rsi_oversold self) then
                      [make_signal coin ''bullish''
                         (min 100 (py_int (fl (fl (of_int (rsi_oversold self) - current_rsi)
                                               * fl 3.3))))
                         ''technical/rsi_oversold'' now]
                    else if current_rsi > of_int (rsi_overbought self) then
                      [make_signal coin ''bearish''
                         (min 100 (py_int (fl (fl (current_rsi - of_int (rsi_overbought self))
                                               * fl 3.3))))
                         ''technical/rsi_overbought'' now]
                    else []))"

text \<open>
  \<^verbatim>\<open>
  def _macd_signals(self, df, coin, now):
      macd_df = ta.macd(df["close"], fast=..., slow=..., signal=...)
      if macd_df is None or macd_df.empty:
          return []
      hist = macd_df.iloc[:, 2]
      if len(hist) < 2:
          return []
      current = hist.iloc[-1]
      previous = hist.iloc[-2]
      if pd.isna(current) or pd.isna(previous):
          return []
      if previous < 0 and current > 0:
          confidence = min(100, max(30, int(abs(current) * 1000)))
          return [self._make_signal(coin, "bullish", confidence, "technical/macd_crossover", now)]
      elif previous > 0 and current < 0:
          confidence = min(100, max(30, int(abs(current) * 1000)))
          return [self._make_signal(coin, "bearish", confidence, "technical/macd_crossover", now)]
      return []
  \<close>
\<close>

definition macd_signals :: "ta_lib \<Rightarrow> TechnicalProcessor \<Rightarrow> real list \<Rightarrow> string \<Rightarrow> int \<Rightarrow> Signal list" where
  "macd_signals ta self closes coin now =
     (case ta_macd ta closes (macd_fast self) (macd_slow self) (macd_signal self) of
        None \<Rightarrow> []
      | Some hist \<Rightarrow>
          if hist = [] then []
          else if length hist < 2 then []
          else (case (last hist, hist ! (length hist - 2)) of
                  (Some current, Some previous) \<Rightarrow>
                    if previous < 0 \<and> current > 0 then
                      [make_signal coin ''bullish''
                         (min 100 (max 30 (py_int (fl (\<bar>current\<bar> * 1000)))))
                         ''technical/macd_crossover'' now]
                    else if previous > 0 \<and> current < 0 then
                      [make_signal coin ''bearish''
                         (min 100 (max 30 (py_int (fl (\<bar>current\<bar> * 1000)))))
                         ''technical/macd_crossover'' now]
                    else []
                | _ \<Rightarrow> []))"

text \<open>
  \<^verbatim>\<open>
  def _sma_signals(self, df, coin, now):
      sma_short = ta.sma(df["close"], length=self._sma_short)
      sma_long = ta.sma(df["close"], length=self._sma_long)
      if sma_short is None or sma_long is None:
          return []
      if sma_short.empty or sma_long.empty:
          return []
      short_val = sma_short.iloc[-1]
      long_val = sma_long.iloc[-1]
      prev_short = sma_short.iloc[-2]
      prev_long = sma_long.iloc[-2]
      if any(pd.isna(v) for v in [short_val, long_val, prev_short, prev_long]):
          return []
      if prev_short <= prev_long and short_val > long_val:
          return [self._make_signal(coin, "bullish", 55, "technical/sma_golden_cross", now)]
      elif prev_short >= prev_long and short_val < long_val:
          return [self._make_signal(coin, "bearish", 55, "technical/sma_death_cross", now)]
      return []
  \<close>
  Only the emptiness of the two series is checked before \<^verbatim>\<open>iloc[-2]\<close>, which raises on
  a series of one element.
\<close>

definition sma_signals ::
  "ta_lib \<Rightarrow> TechnicalProcessor \<Rightarrow> real list \<Rightarrow> string \<Rightarrow> int \<Rightarrow> error + Signal list" where
  "sma_signals ta self closes coin now =
     (case (ta_sma ta closes (sma_short self), ta_sma ta closes (sma_long self)) of
        (Some shorts, Some longs) \<Rightarrow>
          if shorts = [] \<or> longs = [] then Inr []
          else
            bind_err (iloc shorts (- 1)) (\<lambda>short_val.
            bind_err (iloc longs (- 1)) (\<lambda>long_val.
            bind_err (iloc shorts (- 2)) (\<lambda>prev_short.
            bind_err (iloc longs (- 2)) (\<lambda>prev_long.
              (case (short_val, long_val, prev_short, prev_long) of
                 (Some sv, Some lv, Some ps, Some pl) \<Rightarrow>
                   if ps \<le> pl \<and> sv > lv then
                     Inr [make_signal coin ''bullish'' 55 ''technical/sma_golden_cross'' now]
                   else if ps \<ge> pl \<and> sv < lv then
                     Inr [make_signal coin ''bearish'' 55 ''technical/sma_death_cross'' now]
                   else Inr []
               | _ \<Rightarrow> Inr [])))))
      | _ \<Rightarrow> Inr [])"

text \<open>
  \<^verbatim>\<open>
  def process(self, candles):
      if len(candles) < MIN_CANDLES:
          return []
      df = self._candles_to_df(candles)
      coin = candles[0].coin
      now = candles[-1].timestamp
      signals = []
      signals.extend(self._rsi_signals(df, coin, now))
      signals.extend(self._macd_signals(df, coin, now))
      signals.extend(self._sma_signals(df, coin, now))
      return signals
  \<close>
  The indicators read the column \<^verbatim>\<open>close\<close> of the frame only.
\<close>

definition process :: "ta_lib \<Rightarrow> TechnicalProcessor \<Rightarrow> Candle list \<Rightarrow> error + Signal list" where
  "process ta self candles =
     (if length candles < MIN_CANDLES then Inr []
      else
        let closes = map c_close candles;
            coin = c_coin (hd candles);
            now = c_timestamp (last candles)
        in let from_rsi = rsi_signals ta self closes coin now;
               from_macd = macd_signals ta self closes coin now
           in bind_err (sma_signals ta self closes coin now) (\<lambda>from_sma.
                Inr (from_rsi @ from_macd @ from_sma)))"

section \<open>The backtest engine: execution\<close>

text \<open>
  Modelled from the spec: \<^verbatim>\<open>BacktestExecutor\<close> is imported by the plan's code and
  not given there.  Section 4.4 of the spec describes it: a buy deducts the amount from the
  cash, opens a position at the current close with quantity amount / close and appends a
  buy trade; a sell credits quantity times the current close, closes the position with its
  exit price and realised profit, and appends a sell trade.  The runner tests
  \<^verbatim>\<open>coin in portfolio.positions\<close> for an open position, so a sell removes the
  position from the dictionary.
\<close>

record BacktestExecutor =
  ex_portfolio :: Portfolio
  ex_trades :: "Trade list"
  ex_closed :: "Position list"

definition execute_buy :: "BacktestExecutor \<Rightarrow> string \<Rightarrow> real \<Rightarrow> Candle \<Rightarrow> error + BacktestExecutor" where
  "execute_buy ex coin amt candle =
     (if c_close candle = 0 then Inl ZeroDivisionError
      else
        let qty = fl (amt / c_close candle);
            pf = ex_portfolio ex;
            pos = \<lparr>p_coin = coin, entry_price = c_close candle, quantity = qty,
                   opened_at = c_timestamp candle, closed_at = None, exit_price = None,
                   realized_pnl = None\<rparr>;
            trade = \<lparr>t_coin = coin, side = ''buy'', t_quantity = qty, price = c_close candle,
                     amount = amt, t_timestamp = c_timestamp candle\<rparr>
        in Inr (ex\<lparr>ex_portfolio := pf\<lparr>cash := fl (cash pf - amt),
                                        positions := AList.update coin pos (positions pf)\<rparr>,
                   ex_trades := ex_trades ex @ [trade]\<rparr>))"

definition execute_sell :: "BacktestExecutor \<Rightarrow> string \<Rightarrow> Candle \<Rightarrow> error + BacktestExecutor" where
  "execute_sell ex coin candle =
     (let pf = ex_portfolio ex
      in case map_of (positions pf) coin of
           None \<Rightarrow> Inl KeyError
         | Some pos \<Rightarrow>
             let proceeds = fl (quantity pos * c_close candle);
                 done = pos\<lparr>closed_at := Some (c_timestamp candle),
                            exit_price := Some (c_close candle),
                            realized_pnl :=
                              Some (fl (quantity pos * fl (c_close candle - entry_price pos)))\<rparr>;
                 trade = \<lparr>t_coin = coin, side = ''sell'', t_quantity = quantity pos,
                          price = c_close candle, amount = proceeds,
                          t_timestamp = c_timestamp candle\<rparr>
             in Inr (ex\<lparr>ex_portfolio := pf\<lparr>cash := fl (cash pf + proceeds),
                                             positions := AList.delete coin (positions pf)\<rparr>,
                        ex_trades := ex_trades ex @ [trade],
                        ex_closed := ex_closed ex @ [done]\<rparr>))"

section \<open>The backtest engine: the runner\<close>

text \<open>The attributes that \<^verbatim>\<open>BacktestRunner.__init__\<close> stores.\<close>

record BacktestRunner =
  capital :: real
  position_size_pct :: real
  indicator_params :: TechnicalProcessor

record BacktestReport =
  starting_capital :: real
  final_value :: real
  total_return_pct :: real
  buy_hold_return_pct :: real
  trade_count :: nat
  win_count :: nat
  loss_count :: nat
  trades :: "Trade list"
  equity_curve :: "(int \<times> real) list"
  max_drawdown_pct :: real

text \<open>
  \<^verbatim>\<open>
  @property
  def win_rate(self):
      total = self.win_count + self.loss_count
      if total == 0:
          return 0.0
      return self.win_count / total
  \<close>
\<close>

definition win_rate :: "BacktestReport \<Rightarrow> real" where
  "win_rate r =
     (let total = win_count r + loss_count r
      in if total = 0 then 0 else fl (real (win_count r) / real total))"

text \<open>
  \<^verbatim>\<open>max(signals, key=...)\<close> on a list that is not empty: the first element whose key
  is the greatest (a later element replaces the best one only when its key is greater).
\<close>

fun py_max :: "('a \<Rightarrow> real) \<Rightarrow> 'a \<Rightarrow> 'a list \<Rightarrow> 'a" where
  "py_max key best [] = best"
| "py_max key best (x # xs) = py_max key (if key x > key best then x else best) xs"

text \<open>
  The variables of the loop in \<^verbatim>\<open>run\<close>: the executor with its portfolio, the equity
  curve (pairs of time and value), the peak and the maximal drawdown.
\<close>

record RunState =
  st_executor :: BacktestExecutor
  st_equity_curve :: "(int \<times> real) list"
  st_peak :: real
  st_max_drawdown :: real

text \<open>
  \<^verbatim>\<open>
  value = portfolio.cash
  for c, pos in portfolio.positions.items():
      value += pos.quantity * current_candle.close
  \<close>
\<close>

definition portfolio_value :: "Portfolio \<Rightarrow> real \<Rightarrow> real" where
  "portfolio_value pf close_now =
     foldl (\<lambda>v (c, pos). fl (v + fl (quantity pos * close_now))) (cash pf) (positions pf)"

text \<open>
  \<^verbatim>\<open>
  if value > peak:
      peak = value
  drawdown = ((peak - value) / peak) * 100 if peak > 0 else 0
  if drawdown > max_drawdown:
      max_drawdown = drawdown
  \<close>
  on the pair of the peak and the maximal drawdown.
\<close>

definition track_drawdown :: "real \<times> real \<Rightarrow> real \<Rightarrow> real \<times> real" where
  "track_drawdown pm v =
     (let pk = (if v > fst pm then v else fst pm);
          drawdown = (if pk > 0 then fl (fl (fl (pk - v) / pk) * 100) else 0);
          md = (if drawdown > snd pm then drawdown else snd pm)
      in (pk, md))"

text \<open>
  \<^verbatim>\<open>
  if best.direction == "bullish" and coin not in portfolio.positions:
      amount = portfolio.cash * (self._position_size_pct / 100)
      if amount > 1.0:
          executor.execute_buy(coin, amount=amount, candle=current_candle)
  elif best.direction == "bearish" and coin in portfolio.positions:
      executor.execute_sell(coin, candle=current_candle)
  \<close>
\<close>

definition act :: "BacktestRunner \<Rightarrow> Signal \<Rightarrow> string \<Rightarrow> Candle \<Rightarrow> BacktestExecutor \<Rightarrow> error + BacktestExecutor" where
  "act self best coin current_candle ex =
     (let pf = ex_portfolio ex
      in if direction best = ''bullish'' \<and> map_of (positions pf) coin = None then
           (let amt = fl (cash pf * fl (position_size_pct self / 100))
            in if amt > 1 then execute_buy ex coin amt current_candle else Inr ex)
         else if direction best = ''bearish'' \<and> map_of (positions pf) coin \<noteq> None then
           execute_sell ex coin current_candle
         else Inr ex)"

text \<open>
  The body of the loop, for the index \<open>i\<close>:
  \<^verbatim>\<open>
  window = candles[: i + 1]
  current_candle = candles[i]
  coin = current_candle.coin
  signals = processor.process(window)
  if signals:
      # Simple strategy: act on the strongest signal
      best = max(signals, key=lambda s: abs(s.score))
      ...
  # Record equity at each step
  ...
  equity_curve.append(
      {"time": current_candle.timestamp.isoformat(), "value": round(value, 2)})
  # Track max drawdown
  ...
  \<close>
  The property \<^verbatim>\<open>score\<close> of a signal belongs to the class \<^verbatim>\<open>Signal\<close>, which
  the plan does not give: it is a parameter of the runner.
\<close>

definition step ::
  "(Signal \<Rightarrow> real) \<Rightarrow> ta_lib \<Rightarrow> BacktestRunner \<Rightarrow> Candle list \<Rightarrow> nat \<Rightarrow> RunState \<Rightarrow> error + RunState" where
  "step score ta self candles i st =
     (let window = take (i + 1) candles;
          current_candle = candles ! i;
          coin = c_coin current_candle
      in bind_err (process ta (indicator_params self) window) (\<lambda>signals.
         bind_err (case signals of
                     [] \<Rightarrow> Inr (st_executor st)
                   | s # rest \<Rightarrow>
                       act self (py_max (\<lambda>s. \<bar>score s\<bar>) s rest) coin current_candle
                         (st_executor st)) (\<lambda>ex.
           let v = portfolio_value (ex_portfolio ex) (c_close current_candle);
               pm = track_drawdown (st_peak st, st_max_drawdown st) v
           in Inr \<lparr>st_executor = ex,
                   st_equity_curve =
                     st_equity_curve st @ [(c_timestamp current_candle, py_round2 v)],
                   st_peak = fst pm,
                   st_max_drawdown = snd pm\<rparr>)))"

text \<open>\<^verbatim>\<open>for i in range(30, len(candles)):\<close> over the list of the indices.\<close>

fun run_loop ::
  "(Signal \<Rightarrow> real) \<Rightarrow> ta_lib \<Rightarrow> BacktestRunner \<Rightarrow> Candle list \<Rightarrow> nat list \<Rightarrow> RunState \<Rightarrow> error + RunState" where
  "run_loop score ta self candles [] st = Inr st"
| "run_loop score ta self candles (i # rest) st =
     (case step score ta self candles i st of
        Inl e \<Rightarrow> Inl e
      | Inr st' \<Rightarrow> run_loop score ta self candles rest st')"

text \<open>
  \<^verbatim>\<open>
  def _count_wins_losses(self, trades):
      wins = 0
      losses = 0
      buy_prices = {}
      for trade in trades:
          if trade.side == "buy":
              buy_prices[trade.coin] = trade.price
          elif trade.side == "sell" and trade.coin in buy_prices:
              if trade.price > buy_prices[trade.coin]:
                  wins += 1
              else:
                  losses += 1
              del buy_prices[trade.coin]
      return wins, losses
  \<close>
\<close>

fun count_wins_losses_from :: "Trade list \<Rightarrow> nat \<Rightarrow> nat \<Rightarrow> (string \<times> real) list \<Rightarrow> nat \<times> nat" where
  "count_wins_losses_from [] wins losses buy_prices = (wins, losses)"
| "count_wins_losses_from (trade # rest) wins losses buy_prices =
     (if side trade = ''buy'' then
        count_wins_losses_from rest wins losses
          (AList.update (t_coin trade) (price trade) buy_prices)
      else if side trade = ''sell'' then
        (case map_of buy_prices (t_coin trade) of
           None \<Rightarrow> count_wins_losses_from rest wins losses buy_prices
         | Some bought \<Rightarrow>
             if price trade > bought then
               count_wins_losses_from rest (wins + 1) losses
                 (AList.delete (t_coin trade) buy_prices)
             else
               count_wins_losses_from rest wins (losses + 1)
                 (AList.delete (t_coin trade) buy_prices))
      else count_wins_losses_from rest wins losses buy_prices)"

definition count_wins_losses :: "Trade list \<Rightarrow> nat \<times> nat" where
  "count_wins_losses ts = count_wins_losses_from ts 0 0 []"

text \<open>The state before the loop: the curve starts with the capital at the first timestamp.\<close>

definition initial_state :: "BacktestRunner \<Rightarrow> Candle list \<Rightarrow> RunState" where
  "initial_state self candles =
     \<lparr>st_executor = \<lparr>ex_portfolio = \<lparr>cash = capital self, positions = []\<rparr>,
                      ex_trades = [], ex_closed = []\<rparr>,
      st_equity_curve = [(c_timestamp (hd candles), capital self)],
      st_peak = capital self,
      st_max_drawdown = 0\<rparr>"

text \<open>
  \<^verbatim>\<open>
  def run(self, candles):
      portfolio = Portfolio(cash=self._capital)
      executor = BacktestExecutor(portfolio=portfolio)
      processor = TechnicalProcessor(**self._indicator_params)
      buy_hold_start = candles[0].close
      buy_hold_end = candles[-1].close
      equity_curve = [{"time": candles[0].timestamp.isoformat(), "value": self._capital}]
      peak = self._capital
      max_drawdown = 0.0
      for i in range(30, len(candles)):
          ...
      final_value = portfolio.cash
      for coin, pos in portfolio.positions.items():
          final_value += pos.quantity * candles[-1].close
      total_return_pct = ((final_value - self._capital) / self._capital) * 100
      buy_hold_return_pct = ((buy_hold_end - buy_hold_start) / buy_hold_start) * 100
      wins, losses = self._count_wins_losses(executor.trades)
      return BacktestReport(..., max_drawdown_pct=round(max_drawdown, 2))
  \<close>
  \<^verbatim>\<open>candles[0]\<close> raises on an empty list, and each of the two divisions raises
  \<^verbatim>\<open>ZeroDivisionError\<close> when its divisor is zero.
\<close>

definition run ::
  "(Signal \<Rightarrow> real) \<Rightarrow> ta_lib \<Rightarrow> BacktestRunner \<Rightarrow> Candle list \<Rightarrow> error + BacktestReport" where
  "run score ta self candles =
     (if candles = [] then Inl IndexError
      else
        let buy_hold_start = c_close (hd candles);
            buy_hold_end = c_close (last candles)
        in bind_err (run_loop score ta self candles [30..<length candles]
                       (initial_state self candles)) (\<lambda>st.
             let ex = st_executor st;
                 fv = portfolio_value (ex_portfolio ex) (c_close (last candles))
             in if capital self = 0 then Inl ZeroDivisionError
                else if buy_hold_start = 0 then Inl ZeroDivisionError
                else
                  let wl = count_wins_losses (ex_trades ex)
                  in Inr \<lparr>starting_capital = capital self,
                          final_value = fv,
                          total_return_pct =
                            fl (fl (fl (fv - capital self) / capital self) * 100),
                          buy_hold_return_pct =
                            fl (fl (fl (buy_hold_end - buy_hold_start) / buy_hold_start) * 100),
                          trade_count = length (ex_trades ex),
                          win_count = fst wl,
                          loss_count = snd wl,
                          trades = ex_trades ex,
                          equity_curve = st_equity_curve st,
                          max_drawdown_pct = py_round2 (st_max_drawdown st)\<rparr>))"

section \<open>The backtest engine: the request and the endpoint\<close>

text \<open>
  \<^verbatim>\<open>
  class BacktestRequest(BaseModel):
      name: str | None = None
      symbol: str = "BTC/USD"
      timeframe: str = "1h"
      days: int = 90
      capital: float = 1000.0
      position_size_pct: float = 20.0
      rsi_period: int = 14
      rsi_oversold: int = 30
      rsi_overbought: int = 70
      macd_fast: int = 12
      macd_slow: int = 26
      macd_signal: int = 9
      sma_short: int = 10
      sma_long: int = 20
  \<close>
\<close>

record BacktestRequest =
  req_name :: "string option"
  req_symbol :: string
  req_timeframe :: string
  req_days :: int
  req_capital :: real
  req_position_size_pct :: real
  req_rsi_period :: int
  req_rsi_oversold :: int
  req_rsi_overbought :: int
  req_macd_fast :: int
  req_macd_slow :: int
  req_macd_signal :: int
  req_sma_short :: int
  req_sma_long :: int

text \<open>The dictionary \<^verbatim>\<open>results\<close> that the endpoint stores and returns.\<close>

record ResultsDoc =
  doc_total_return_pct :: real
  doc_buy_hold_return_pct :: real
  doc_final_value :: real
  doc_trade_count :: nat
  doc_win_count :: nat
  doc_loss_count :: nat
  doc_win_rate :: real
  doc_max_drawdown_pct :: real
  doc_equity_curve :: "(int \<times> real) list"

text \<open>A row of the table \<^verbatim>\<open>backtest_runs\<close>; the database is the list of its rows.\<close>

record BacktestRow =
  row_id :: string
  row_name :: "string option"
  row_symbol :: string
  row_timeframe :: string
  row_days :: int
  row_params :: BacktestRequest
  row_results :: ResultsDoc

text \<open>\<^verbatim>\<open>round(x, 4)\<close>\<close>

definition py_round4 :: "real \<Rightarrow> real" where
  "py_round4 x = fl (of_int (py_round (x * 10000)) / 10000)"

definition runner_of :: "BacktestRequest \<Rightarrow> BacktestRunner" where
  "runner_of req =
     \<lparr>capital = req_capital req,
      position_size_pct = req_position_size_pct req,
      indicator_params =
        \<lparr>rsi_period = req_rsi_period req,
         rsi_oversold = req_rsi_oversold req,
         rsi_overbought = req_rsi_overbought req,
         macd_fast = req_macd_fast req,
         macd_slow = req_macd_slow req,
         macd_signal = req_macd_signal req,
         sma_short = req_sma_short req,
         sma_long = req_sma_long req\<rparr>\<rparr>"

definition results_of :: "BacktestReport \<Rightarrow> ResultsDoc" where
  "results_of report =
     \<lparr>doc_total_return_pct = py_round2 (total_return_pct report),
      doc_buy_hold_return_pct = py_round2 (buy_hold_return_pct report),
      doc_final_value = py_round2 (final_value report),
      doc_trade_count = trade_count report,
      doc_win_count = win_count report,
      doc_loss_count = loss_count report,
      doc_win_rate = py_round4 (win_rate report),
      doc_max_drawdown_pct = max_drawdown_pct report,
      doc_equity_curve = equity_curve report\<rparr>"

text \<open>
  \<^verbatim>\<open>
  @app.post("/api/backtest/run")
  async def run_backtest(req: BacktestRequest):
      candles = await _fetch_candles(req.symbol, req.timeframe, req.days)
      if len(candles) < 30:
          raise HTTPException(400, f"Not enough candles ({len(candles)}). Need at least 30.")
      runner = BacktestRunner(capital=req.capital, ...)
      report = runner.run(candles)
      params = req.model_dump()
      results = {...}
      db = await _get_db()
      row = await db.fetchrow("""INSERT INTO backtest_runs ... RETURNING id""", ...)
      return {"id": str(row["id"]), **results}
  \<close>
  The candles that \<^verbatim>\<open>_fetch_candles\<close> returns and the id that the database gives the
  new row are parameters.  The result is the response, or the error raised, and the
  database after the call.
\<close>

definition run_backtest ::
  "(Signal \<Rightarrow> real) \<Rightarrow> ta_lib \<Rightarrow> BacktestRequest \<Rightarrow> Candle list \<Rightarrow> string \<Rightarrow> BacktestRow list
     \<Rightarrow> (error + string \<times> ResultsDoc) \<times> BacktestRow list" where
  "run_backtest score ta req candles new_id db =
     (if length candles < 30 then (Inl (HTTPException 400), db)
      else
        case run score ta (runner_of req) candles of
          Inl e \<Rightarrow> (Inl e, db)
        | Inr report \<Rightarrow>
            let results = results_of report;
                row = \<lparr>row_id = new_id, row_name = req_name req, row_symbol = req_symbol req,
                       row_timeframe = req_timeframe req, row_days = req_days req,
                       row_params = req, row_results = results\<rparr>
            in (Inr (new_id, results), db @ [row]))"

section \<open>The form of the backtest page\<close>

text \<open>
  The type \<^verbatim>\<open>Params\<close> of \<^verbatim>\<open>app/backtest/page.tsx\<close>; \<^verbatim>\<open>runBacktest\<close> posts
  \<^verbatim>\<open>JSON.stringify(params)\<close> to \<^verbatim>\<open>/api/backtest/run\<close>.
\<close>

record Params =
  ui_name :: string
  ui_symbol :: string
  ui_timeframe :: string
  ui_days :: real
  ui_capital :: real
  ui_position_size_pct :: real
  ui_use_rsi :: bool
  ui_rsi_period :: real
  ui_rsi_oversold :: real
  ui_rsi_overbought :: real
  ui_use_macd :: bool
  ui_macd_fast :: real
  ui_macd_slow :: real
  ui_macd_signal :: real
  ui_use_sma :: bool
  ui_sma_short :: real
  ui_sma_long :: real
  ui_stop_loss_pct :: "real option"
  ui_take_profit_pct :: "real option"

definition DEFAULTS :: Params where
  "DEFAULTS =
     \<lparr>ui_name = [], ui_symbol = ''BTC/USD'', ui_timeframe = ''1h'', ui_days = 90,
      ui_capital = 1000, ui_position_size_pct = 20,
      ui_use_rsi = True, ui_rsi_period = 14, ui_rsi_oversold = 30, ui_rsi_overbought = 70,
      ui_use_macd = True, ui_macd_fast = 12, ui_macd_slow = 26, ui_macd_signal = 9,
      ui_use_sma = True, ui_sma_short = 10, ui_sma_long = 20,
      ui_stop_loss_pct = None, ui_take_profit_pct = None\<rparr>"

text \<open>
  The request model built from the posted object.  The model declares fourteen fields;
  the keys \<^verbatim>\<open>use_rsi\<close>, \<^verbatim>\<open>use_macd\<close>, \<^verbatim>\<open>use_sma\<close>, \<^verbatim>\<open>stop_loss_pct\<close> and
  \<^verbatim>\<open>take_profit_pct\<close> of the object are not among them and are dropped.  A field of type
  \<^verbatim>\<open>int\<close> accepts a number without fractional part only; the types are the whole of
  the validation, the model has no validator and no bound.
\<close>

definition as_int :: "real \<Rightarrow> error + int" where
  "as_int x = (if x = of_int \<lfloor>x\<rfloor> then Inr \<lfloor>x\<rfloor> else Inl ValidationError)"

definition request_of_params :: "Params \<Rightarrow> error + BacktestRequest" where
  "request_of_params p =
     bind_err (as_int (ui_days p)) (\<lambda>days.
     bind_err (as_int (ui_rsi_period p)) (\<lambda>rp.
     bind_err (as_int (ui_rsi_oversold p)) (\<lambda>ro.
     bind_err (as_int (ui_rsi_overbought p)) (\<lambda>rb.
     bind_err (as_int (ui_macd_fast p)) (\<lambda>mf.
     bind_err (as_int (ui_macd_slow p)) (\<lambda>ms.
     bind_err (as_int (ui_macd_signal p)) (\<lambda>mg.
     bind_err (as_int (ui_sma_short p)) (\<lambda>ss.
     bind_err (as_int (ui_sma_long p)) (\<lambda>sl.
       Inr \<lparr>req_name = Some (ui_name p), req_symbol = ui_symbol p,
            req_timeframe = ui_timeframe p, req_days = days,
            req_capital = ui_capital p, req_position_size_pct = ui_position_size_pct p,
            req_rsi_period = rp, req_rsi_oversold = ro, req_rsi_overbought = rb,
            req_macd_fast = mf, req_macd_slow = ms, req_macd_signal = mg,
            req_sma_short = ss, req_sma_long = sl\<rparr>)))))))))"

text \<open>
  The request \<^verbatim>\<open>fetch("/api/backtest/run", {method: "POST", body: JSON.stringify(params)})\<close>
  of \<^verbatim>\<open>runBacktest\<close> as the endpoint of the plan serves it.
\<close>

definition post_run ::
  "(Signal \<Rightarrow> real) \<Rightarrow> ta_lib \<Rightarrow> Params \<Rightarrow> Candle list \<Rightarrow> string \<Rightarrow> BacktestRow list
     \<Rightarrow> (error + string \<times> ResultsDoc) \<times> BacktestRow list" where
  "post_run score ta p candles new_id db =
     (case request_of_params p of
        Inl e \<Rightarrow> (Inl e, db)
      | Inr req \<Rightarrow> run_backtest score ta req candles new_id db)"

text \<open>
  The button \<^verbatim>\<open>Run Backtest\<close>:
  \<^verbatim>\<open>disabled={loading || (!params.use_rsi && !params.use_macd && !params.use_sma)}\<close>.
  A click on the disabled button sends nothing (\<open>None\<close>); a click on the enabled one
  calls \<^verbatim>\<open>runBacktest\<close>.
\<close>

definition run_disabled :: "bool \<Rightarrow> Params \<Rightarrow> bool" where
  "run_disabled loading p = (loading \<or> (\<not> ui_use_rsi p \<and> \<not> ui_use_macd p \<and> \<not> ui_use_sma p))"

definition click_run ::
  "(Signal \<Rightarrow> real) \<Rightarrow> ta_lib \<Rightarrow> bool \<Rightarrow> Params \<Rightarrow> Candle list \<Rightarrow> string \<Rightarrow> BacktestRow list
     \<Rightarrow> ((error + string \<times> ResultsDoc) \<times> BacktestRow list) option" where
  "click_run score ta loading p candles new_id db =
     (if run_disabled loading p then None
      else Some (post_run score ta p candles new_id db))"

section \<open>Indicators and score for the examples\<close>

text \<open>
  Modelled from the spec: the property \<^verbatim>\<open>Signal.score\<close> is not given.  Section 4.3
  ranks the signals of a step by their confidence, so the score of the examples is the
  confidence as a fraction, negative for a bearish signal.
\<close>

definition spec_score :: "Signal \<Rightarrow> real" where
  "spec_score s =
     (if direction s = ''bearish'' then - fl (of_int (confidence s) / 100)
      else fl (of_int (confidence s) / 100))"

text \<open>
  Modelled from the spec: the indicator library is not part of the repository.  Section 4.1:
  the RSI is the relative strength over the trailing \<open>period\<close> candles, undefined with
  fewer than \<open>period + 1\<close> closes (and where no close moved, where it is 0 / 0); the
  moving average is the mean of the trailing closes; the MACD histogram is the difference
  of the fast and the slow exponential average minus its own exponential average, undefined
  before both the slow average and the signal line have their full windows.  Each value of
  a series is a float: the exact value, rounded once.
\<close>

definition rsi_of_window :: "real list \<Rightarrow> real option" where
  "rsi_of_window w =
     (let d = map (\<lambda>(a, b). b - a) (zip w (tl w));
          gain = sum_list (map (\<lambda>x. max x 0) d);
          loss = sum_list (map (\<lambda>x. max (- x) 0) d)
      in if gain + loss = 0 then None else Some (fl (100 * gain / (gain + loss))))"

definition spec_rsi :: "real list \<Rightarrow> int \<Rightarrow> series option" where
  "spec_rsi closes n =
     (if n < 1 then None
      else Some (map (\<lambda>j. if int j < n then None
                           else rsi_of_window (take (nat n + 1) (drop (j - nat n) closes)))
                     [0..<length closes]))"

definition spec_sma :: "real list \<Rightarrow> int \<Rightarrow> series option" where
  "spec_sma closes n =
     (if n < 1 then None
      else Some (map (\<lambda>j. if int j + 1 < n then None
                           else Some (fl (sum_list (take (nat n) (drop (j + 1 - nat n) closes))
                                          / of_int n)))
                     [0..<length closes]))"

fun ema_from :: "real \<Rightarrow> real \<Rightarrow> real list \<Rightarrow> real list" where
  "ema_from alpha prev [] = []"
| "ema_from alpha prev (x # xs) =
     (let e = alpha * x + (1 - alpha) * prev in e # ema_from alpha e xs)"

definition ema :: "int \<Rightarrow> real list \<Rightarrow> real list" where
  "ema n xs = (case xs of [] \<Rightarrow> [] | x # rest \<Rightarrow> x # ema_from (2 / (of_int n + 1)) x rest)"

definition spec_macd :: "real list \<Rightarrow> int \<Rightarrow> int \<Rightarrow> int \<Rightarrow> series option" where
  "spec_macd closes fast slow sig =
     (if fast < 1 \<or> slow < 1 \<or> sig < 1 then None
      else Some (map (\<lambda>j. if int j + 2 < slow + sig then None
                           else Some (fl (map (\<lambda>(f, s). f - s)
                                            (zip (ema fast closes) (ema slow closes)) ! j
                                          - ema sig (map (\<lambda>(f, s). f - s)
                                                       (zip (ema fast closes) (ema slow closes))) ! j)))
                     [0..<length closes]))"

definition spec_ta :: ta_lib where
  "spec_ta = \<lparr>ta_rsi = spec_rsi, ta_macd = spec_macd, ta_sma = spec_sma\<rparr>"

text \<open>
  A library that reports fixed latest values, whatever the closes: the series of the RSI
  is \<open>r\<close> alone, the histogram is the pair \<open>h\<close> (previous, then current), and the
  averages of length \<open>n\<close> are the pair \<open>m n\<close>.
\<close>

definition fixed_ta :: "real option \<Rightarrow> real option \<times> real option \<Rightarrow> (int \<Rightarrow> real option \<times> real option) \<Rightarrow> ta_lib" where
  "fixed_ta r h m =
     \<lparr>ta_rsi = (\<lambda>closes n. Some [r]),
      ta_macd = (\<lambda>closes f s g. Some [fst h, snd h]),
      ta_sma = (\<lambda>closes n. Some [fst (m n), snd (m n)])\<rparr>"

text \<open>Candles of one instrument, one hour apart, with the given closes.\<close>

definition candle_at :: "nat \<Rightarrow> real \<Rightarrow> Candle" where
  "candle_at i c =
     \<lparr>c_coin = ''BTC/USD'', c_timeframe = ''1h'', c_open = c, c_high = c, c_low = c,
      c_close = c, c_volume = 1000, c_timestamp = 1704067200 + 3600 * int i\<rparr>"

definition candles_of :: "(nat \<Rightarrow> real) \<Rightarrow> nat \<Rightarrow> Candle list" where
  "candles_of f n = map (\<lambda>i. candle_at i (f i)) [0..<n]"


text \<open>The processor with the defaults of its constructor.\<close>

definition default_processor :: TechnicalProcessor where
  "default_processor =
     \<lparr>rsi_period = 14, rsi_oversold = 30, rsi_overbought = 70, macd_fast = 12, macd_slow = 26,
      macd_signal = 9, sma_short = 10, sma_long = 20\<rparr>"


text \<open>The runner with the defaults of its constructor.\<close>

definition default_runner :: BacktestRunner where
  "default_runner =
     \<lparr>capital = 1000, position_size_pct = 20, indicator_params = default_processor\<rparr>"

text \<open>
  The state of the loop of \<^verbatim>\<open>run\<close> once the iteration of index \<open>i\<close> is done (or the
  exception raised up to there).
\<close>

definition state_after ::
  "(Signal \<Rightarrow> real) \<Rightarrow> ta_lib \<Rightarrow> BacktestRunner \<Rightarrow> Candle list \<Rightarrow> nat \<Rightarrow> error + RunState" where
  "state_after score ta self candles i =
     run_loop score ta self candles [30..<Suc i] (initial_state self candles)"

text \<open>
  The values of the portfolio that the iterations of the loop compute, before they are
  rounded for the equity curve: one for each index of the list, as long as no step raises.
\<close>

fun loop_values ::
  "(Signal \<Rightarrow> real) \<Rightarrow> ta_lib \<Rightarrow> BacktestRunner \<Rightarrow> Candle list \<Rightarrow> nat list \<Rightarrow> RunState \<Rightarrow> real list" where
  "loop_values score ta self candles [] st = []"
| "loop_values score ta self candles (i # rest) st =
     (case step score ta self candles i st of
        Inl e \<Rightarrow> []
      | Inr st' \<Rightarrow>
          portfolio_value (ex_portfolio (st_executor st')) (c_close (candles ! i))
          # loop_values score ta self candles rest st')"

definition equity_values ::
  "(Signal \<Rightarrow> real) \<Rightarrow> ta_lib \<Rightarrow> BacktestRunner \<Rightarrow> Candle list \<Rightarrow> real list" where
  "equity_values score ta self candles =
     loop_values score ta self candles [30..<length candles] (initial_state self candles)"

text \<open>
  The running peak of the values seen so far, starting from the capital; the drawdown of
  the step \<open>k\<close> against the peak that includes its own value; and the running maximum of
  the drawdowns, starting from 0.
\<close>

definition running_peak :: "real \<Rightarrow> real list \<Rightarrow> real" where
  "running_peak c vs = foldl max c vs"

definition drawdown_at :: "real \<Rightarrow> real list \<Rightarrow> nat \<Rightarrow> real" where
  "drawdown_at c vs k =
     (let pk = running_peak c (take (Suc k) vs)
      in if pk > 0 then fl (fl (fl (pk - vs ! k) / pk) * 100) else 0)"

definition max_drawdown_of :: "real \<Rightarrow> real list \<Rightarrow> real" where
  "max_drawdown_of c vs = foldl max 0 (map (drawdown_at c vs) [0..<length vs])"

text \<open>The request that the form posts with its \<^verbatim>\<open>DEFAULTS\<close>.\<close>

definition defaults_request :: BacktestRequest where
  "defaults_request =
     \<lparr>req_name = Some [], req_symbol = ''BTC/USD'', req_timeframe = ''1h'', req_days = 90,
      req_capital = 1000, req_position_size_pct = 20,
      req_rsi_period = 14, req_rsi_oversold = 30, req_rsi_overbought = 70,
      req_macd_fast = 12, req_macd_slow = 26, req_macd_signal = 9,
      req_sma_short = 10, req_sma_long = 20\<rparr>"


section \<open>Properties of the selection\<close>

lemma toggle_distinct: "distinct sel \<Longrightarrow> distinct (toggle rid sel)"
  by (simp add: toggle_def set_has_def set_delete_def set_add_def set_size_def Let_def
      distinct_removeAll)

lemma toggle_length: "length sel \<le> 5 \<Longrightarrow> length (toggle rid sel) \<le> 5"
proof -
  assume b: "length sel \<le> 5"
  have "length (removeAll rid sel) \<le> length sel"
    by (rule length_removeAll_less_eq)
  then have "length (removeAll rid sel) \<le> 5"
    using b by linarith
  then show ?thesis
    using b by (simp add: toggle_def set_has_def set_delete_def set_add_def set_size_def Let_def)
qed

lemma foldl_toggle_inv:
  "distinct sel \<Longrightarrow> length sel \<le> 5 \<Longrightarrow>
   distinct (foldl (\<lambda>s r. toggle r s) sel clicks) \<and>
   length (foldl (\<lambda>s r. toggle r s) sel clicks) \<le> 5"
  by (induction clicks arbitrary: sel) (simp_all add: toggle_distinct toggle_length)

lemma selected_after_inv:
  "distinct (selected_after clicks) \<and> length (selected_after clicks) \<le> 5"
  unfolding selected_after_def by (rule foldl_toggle_inv) simp_all

text \<open>
  C10.  Whatever rows are clicked, the selection never holds more than five runs: a click
  on an unselected run when five are selected leaves the selection as it is, and a click
  on a selected run always removes it.
\<close>

theorem toggle_at_most_five:
  "set_size (selected_after clicks) \<le> 5 \<and>
   (set_size (selected_after clicks) = 5 \<and> \<not> set_has (selected_after clicks) rid \<longrightarrow>
      toggle rid (selected_after clicks) = selected_after clicks) \<and>
   (set_has (selected_after clicks) rid \<longrightarrow>
      \<not> set_has (toggle rid (selected_after clicks)) rid \<and>
      set (toggle rid (selected_after clicks)) = set (selected_after clicks) - {rid} \<and>
      set_size (toggle rid (selected_after clicks)) = set_size (selected_after clicks) - 1)"
proof -
  let ?s = "selected_after clicks"
  have d: "distinct ?s" and l: "length ?s \<le> 5"
    using selected_after_inv by blast+
  have a: "set_size ?s \<le> 5" using l by (simp add: set_size_def)
  have b: "set_size ?s = 5 \<and> \<not> set_has ?s rid \<longrightarrow> toggle rid ?s = ?s"
    by (simp add: toggle_def Let_def)
  have c: "set_has ?s rid \<longrightarrow>
      \<not> set_has (toggle rid ?s) rid \<and> set (toggle rid ?s) = set ?s - {rid} \<and>
      set_size (toggle rid ?s) = set_size ?s - 1"
  proof
    assume h: "set_has ?s rid"
    then have m: "rid \<in> set ?s" by (simp add: set_has_def)
    have t: "toggle rid ?s = removeAll rid ?s"
      using h by (simp add: toggle_def Let_def set_delete_def)
    have "length (removeAll rid ?s) = length ?s - 1"
      using d m by (simp add: distinct_remove1_removeAll [symmetric] length_remove1)
    then show "\<not> set_has (toggle rid ?s) rid \<and> set (toggle rid ?s) = set ?s - {rid} \<and>
      set_size (toggle rid ?s) = set_size ?s - 1"
      by (simp add: t set_has_def set_size_def)
  qed
  from a b c show ?thesis by blast
qed

theorem toggle_at_most_five_witness:
  "(set_size (selected_after [''a'', ''b'', ''c'', ''d'', ''e'']) = 5 \<and>
    \<not> set_has (selected_after [''a'', ''b'', ''c'', ''d'', ''e'']) ''f'' \<and>
    toggle ''f'' (selected_after [''a'', ''b'', ''c'', ''d'', ''e'']) = [''a'', ''b'', ''c'', ''d'', ''e'']) \<and>
   (set_has (selected_after [''a'', ''b'', ''c'', ''d'', ''e'']) ''c'' \<and>
    toggle ''c'' (selected_after [''a'', ''b'', ''c'', ''d'', ''e'']) = [''a'', ''b'', ''d'', ''e''] \<and>
    set_size (toggle ''c'' (selected_after [''a'', ''b'', ''c'', ''d'', ''e''])) = 4)"
proof -
  have s: "selected_after [''a'', ''b'', ''c'', ''d'', ''e''] = [''a'', ''b'', ''c'', ''d'', ''e'']"
    by (simp add: selected_after_def toggle_def set_has_def set_delete_def set_add_def
        set_size_def Let_def)
  have h1: "set_size (selected_after [''a'', ''b'', ''c'', ''d'', ''e'']) = 5 \<and>
    \<not> set_has (selected_after [''a'', ''b'', ''c'', ''d'', ''e'']) ''f''"
    by (simp add: s set_has_def set_size_def)
  have h2: "set_has (selected_after [''a'', ''b'', ''c'', ''d'', ''e'']) ''c''"
    by (simp add: s set_has_def)
  from toggle_at_most_five [of "[''a'', ''b'', ''c'', ''d'', ''e'']" "''f''"] h1
  have r1: "toggle ''f'' (selected_after [''a'', ''b'', ''c'', ''d'', ''e''])
      = selected_after [''a'', ''b'', ''c'', ''d'', ''e'']"
    by blast
  from toggle_at_most_five [of "[''a'', ''b'', ''c'', ''d'', ''e'']" "''c''"] h2
  have r2: "set_size (toggle ''c'' (selected_after [''a'', ''b'', ''c'', ''d'', ''e'']))
      = set_size (selected_after [''a'', ''b'', ''c'', ''d'', ''e'']) - 1"
    by blast
  have r3: "toggle ''c'' (selected_after [''a'', ''b'', ''c'', ''d'', ''e'']) = [''a'', ''b'', ''d'', ''e'']"
    by (simp add: s toggle_def set_has_def set_delete_def Let_def)
  from h1 h2 r1 r2 r3 show ?thesis
    by (simp add: s set_size_def)
qed

section \<open>Properties of the comparison\<close>

lemma remdups_many: "(Suc 0 < length (remdups xs)) = (\<exists>a\<in>set xs. \<exists>b\<in>set xs. a \<noteq> b)"
proof -
  have "(Suc 0 < length (remdups xs)) = (1 < card (set xs))"
    by (simp add: card_set)
  also have "\<dots> = (\<exists>a\<in>set xs. \<exists>b\<in>set xs. a \<noteq> b)"
  proof
    assume c: "1 < card (set xs)"
    show "\<exists>a\<in>set xs. \<exists>b\<in>set xs. a \<noteq> b"
    proof (rule ccontr)
      assume "\<not> (\<exists>a\<in>set xs. \<exists>b\<in>set xs. a \<noteq> b)"
      then have "\<forall>a\<in>set xs. \<forall>b\<in>set xs. a = b" by blast
      then have "card (set xs) \<le> 1" by (simp add: card_le_Suc0_iff_eq)
      with c show False by simp
    qed
  next
    assume "\<exists>a\<in>set xs. \<exists>b\<in>set xs. a \<noteq> b"
    then obtain a b where ab: "a \<in> set xs" "b \<in> set xs" "a \<noteq> b" by blast
    then have "{a, b} \<subseteq> set xs" by simp
    then have "card {a, b} \<le> card (set xs)" by (intro card_mono) simp_all
    with ab show "1 < card (set xs)" by simp
  qed
  finally show ?thesis .
qed

lemma diffParams_iff:
  "key \<in> set (diffParams num_str runs) \<longleftrightarrow>
     key \<in> set allParamKeys \<and>
     (\<exists>a\<in>set runs. \<exists>b\<in>set runs.
        js_String num_str (js_get (run_params a) key) \<noteq> js_String num_str (js_get (run_params b) key))"
  by (simp add: diffParams_def Let_def remdups_many)

lemma metrics_header_length: "length (metrics_header runs) = Suc (length runs)"
  by (simp add: metrics_header_def)

lemma metrics_rows_length:
  "row \<in> set (metrics_rows fmt runs) \<Longrightarrow> length (snd row) = length runs"
  by (auto simp: metrics_rows_def)

text \<open>
  C8 as the code has it.  For two or more runs the view lists exactly those parameters
  among the eleven keys of \<^verbatim>\<open>PARAM_LABELS\<close> whose values, converted to strings, are
  not the same in all runs, and the metrics table has one column per run beside the
  column of labels, in the header and in each row.
\<close>

theorem compare_diff_and_columns:
  assumes "2 \<le> length runs"
  shows "\<exists>v. CompareContent num_str fmt runs = Some v \<and>
     (\<forall>key. key \<in> set (view_diff v) \<longleftrightarrow>
        key \<in> set (map fst PARAM_LABELS) \<and>
        (\<exists>a\<in>set runs. \<exists>b\<in>set runs.
           js_String num_str (js_get (run_params a) key)
             \<noteq> js_String num_str (js_get (run_params b) key))) \<and>
     length (tl (view_header v)) = length runs \<and>
     (\<forall>row\<in>set (view_rows v). length (snd row) = length runs)"
proof -
  let ?v = "\<lparr>view_diff = diffParams num_str runs, view_header = metrics_header runs,
             view_rows = metrics_rows fmt runs\<rparr>"
  have c: "CompareContent num_str fmt runs = Some ?v"
    using assms by (simp add: CompareContent_def)
  have d: "\<forall>key. key \<in> set (view_diff ?v) \<longleftrightarrow>
        key \<in> set (map fst PARAM_LABELS) \<and>
        (\<exists>a\<in>set runs. \<exists>b\<in>set runs.
           js_String num_str (js_get (run_params a) key)
             \<noteq> js_String num_str (js_get (run_params b) key))"
    using diffParams_iff [of _ num_str runs] by (simp add: allParamKeys_def)
  have h: "length (tl (view_header ?v)) = length runs"
    by (simp add: metrics_header_length)
  have r: "\<forall>row\<in>set (view_rows ?v). length (snd row) = length runs"
    by (simp add: metrics_rows_length)
  from c d h r show ?thesis by blast
qed

lemma three_runs_diff:
  "diffParams integral_string
     [example_run ''r1'' ''BTC/USD'' 25, example_run ''r2'' ''BTC/USD'' 30,
      example_run ''r3'' ''BTC/USD'' 35] = [''rsi_oversold'']"
  by (simp add: diffParams_def allParamKeys_def PARAM_LABELS_def example_run_def
      example_params_def js_get_def integral_string_def string_of_nat.simps Let_def)

text \<open>Scenario D: three runs that differ only in \<^verbatim>\<open>rsi_oversold\<close>.\<close>

theorem compare_diff_and_columns_witness:
  "2 \<le> length [example_run ''r1'' ''BTC/USD'' 25, example_run ''r2'' ''BTC/USD'' 30,
                example_run ''r3'' ''BTC/USD'' 35] \<and>
   (\<exists>v. CompareContent integral_string plain_fmt
           [example_run ''r1'' ''BTC/USD'' 25, example_run ''r2'' ''BTC/USD'' 30,
            example_run ''r3'' ''BTC/USD'' 35] = Some v \<and>
        view_diff v = [''rsi_oversold''] \<and>
        view_header v = [''Metric'', ''Run 1'', ''Run 2'', ''Run 3''] \<and>
        length (tl (view_header v)) = 3 \<and>
        (\<forall>row\<in>set (view_rows v). length (snd row) = 3))"
proof -
  let ?runs = "[example_run ''r1'' ''BTC/USD'' 25, example_run ''r2'' ''BTC/USD'' 30,
                example_run ''r3'' ''BTC/USD'' 35]"
  have two: "2 \<le> length ?runs" by simp
  from compare_diff_and_columns [OF two, of integral_string plain_fmt]
  obtain v where v: "CompareContent integral_string plain_fmt ?runs = Some v"
    and cols: "length (tl (view_header v)) = length ?runs"
    and rows: "\<forall>row\<in>set (view_rows v). length (snd row) = length ?runs"
    by blast
  have d: "view_diff v = [''rsi_oversold'']"
    using v three_runs_diff by (auto simp: CompareContent_def)
  have h: "view_header v = [''Metric'', ''Run 1'', ''Run 2'', ''Run 3'']"
    using v by (auto simp: CompareContent_def metrics_header_def run_label_def
        example_run_def string_of_nat.simps upt_rec)
  from two v d h cols rows show ?thesis by simp
qed

text \<open>
  The claim as worded fails for a configuration parameter outside the eleven keys: two runs
  that differ in \<^verbatim>\<open>symbol\<close> (and in nothing else) have an empty difference list.
\<close>

theorem compare_diff_symbol_counterexample:
  "js_get (run_params (example_run ''r1'' ''BTC/USD'' 30)) ''symbol''
     \<noteq> js_get (run_params (example_run ''r2'' ''ETH/USD'' 30)) ''symbol'' \<and>
   CompareContent integral_string plain_fmt
     [example_run ''r1'' ''BTC/USD'' 30, example_run ''r2'' ''ETH/USD'' 30]
   = Some \<lparr>view_diff = [],
           view_header = [''Metric'', ''Run 1'', ''Run 2''],
           view_rows = metrics_rows plain_fmt
             [example_run ''r1'' ''BTC/USD'' 30, example_run ''r2'' ''ETH/USD'' 30]\<rparr>"
  by (simp add: CompareContent_def diffParams_def allParamKeys_def PARAM_LABELS_def
      example_run_def example_params_def js_get_def integral_string_def
      string_of_nat.simps Let_def metrics_header_def run_label_def upt_rec)

section \<open>Properties of the rounding\<close>

lemma binary_exponent_lower: "0 < x \<Longrightarrow> (2::real) powi (binary_exponent x) \<le> x"
proof (induction x rule: binary_exponent.induct)
  case (1 x)
  show ?case
  proof (cases "x < 1")
    case True
    with 1 have "(2::real) powi (binary_exponent (2 * x)) \<le> 2 * x" by simp
    moreover have "(2::real) powi (binary_exponent (2 * x))
        = 2 * 2 powi (binary_exponent (2 * x) - 1)"
      by (simp add: power_int_diff)
    ultimately show ?thesis using True 1(3) by (simp add: binary_exponent.simps [of x])
  next
    case False
    show ?thesis
    proof (cases "2 \<le> x")
      case True
      with 1 False have "(2::real) powi (binary_exponent (x / 2)) \<le> x / 2" by simp
      then show ?thesis using True False 1(3)
        by (simp add: binary_exponent.simps [of x] power_int_add)
    next
      case small: False
      with False show ?thesis using 1(3) by (simp add: binary_exponent.simps [of x])
    qed
  qed
qed

lemma py_round_nonneg: "0 \<le> x \<Longrightarrow> 0 \<le> py_round x"
  by (simp add: py_round_def Let_def)

lemma py_round_far_from_zero: "2 \<le> \<bar>x\<bar> \<Longrightarrow> py_round x \<noteq> 0"
proof -
  assume a: "2 \<le> \<bar>x\<bar>"
  show ?thesis
  proof (cases "0 \<le> x")
    case True
    with a have "2 \<le> \<lfloor>x\<rfloor>" by simp
    then have "2 \<le> py_round x" by (simp add: py_round_def Let_def)
    then show ?thesis by simp
  next
    case False
    with a have "x \<le> - 2" by simp
    then have "\<lfloor>x\<rfloor> \<le> - 2" by (simp add: floor_le_iff)
    moreover have "py_round x \<le> \<lfloor>x\<rfloor> + 1" by (simp add: py_round_def Let_def)
    ultimately show ?thesis by linarith
  qed
qed

lemma py_round_zero: "0 \<le> x \<Longrightarrow> (py_round x = 0) = (x \<le> 1 / 2)"
proof -
  assume x: "0 \<le> x"
  show ?thesis
  proof (cases "x < 1")
    case True
    with x have f: "\<lfloor>x\<rfloor> = 0" by (simp add: floor_eq_iff)
    show ?thesis by (auto simp: py_round_def Let_def f)
  next
    case False
    then have "1 \<le> \<lfloor>x\<rfloor>" by simp
    then have "1 \<le> py_round x" by (simp add: py_round_def Let_def)
    with False show ?thesis by simp
  qed
qed

lemma fl_zero_iff: "(fl x = 0) = (x = 0)"
proof (cases "x = 0")
  case True
  then show ?thesis by (simp add: fl_def)
next
  case False
  define u :: real where "u = 2 powi (binary_exponent \<bar>x\<bar> - 52)"
  have pos: "0 < u" by (simp add: u_def)
  have "(2::real) powi (binary_exponent \<bar>x\<bar>) \<le> \<bar>x\<bar>"
    using False by (intro binary_exponent_lower) simp
  moreover have "(2::real) powi (binary_exponent \<bar>x\<bar>) = u * 2 ^ 52"
    by (simp add: u_def power_int_diff)
  ultimately have "u * 2 ^ 52 \<le> \<bar>x\<bar>" by simp
  moreover have "u * 2 \<le> u * 2 ^ 52" using pos by simp
  ultimately have "u * 2 \<le> \<bar>x\<bar>" by linarith
  then have "2 \<le> \<bar>x\<bar> / u" using pos by (simp add: field_simps)
  then have "2 \<le> \<bar>x / u\<bar>" using pos by simp
  then have "py_round (x / u) \<noteq> 0" by (rule py_round_far_from_zero)
  with pos False show ?thesis by (simp add: fl_def Let_def u_def [symmetric])
qed

lemma fl_nonneg: "0 \<le> x \<Longrightarrow> 0 \<le> fl x"
  by (simp add: fl_def Let_def py_round_nonneg)

lemma py_round2_nonneg: "0 \<le> x \<Longrightarrow> 0 \<le> py_round2 x"
  by (simp add: py_round2_def py_round_nonneg fl_nonneg)

lemma py_round2_zero: "0 \<le> x \<Longrightarrow> (py_round2 x = 0) = (x \<le> 1 / 200)"
  using py_round_zero [of "x * 100"] by (simp add: py_round2_def fl_zero_iff mult.commute)

text \<open>
  The equations that evaluate the rounding, at the numerals only: at a term with a variable
  they would unfold without end.
\<close>

lemmas fl_eval =
  fl_def [of 0] fl_def [of 1] fl_def [of "- 1"]
  fl_def [of "numeral n"] fl_def [of "- numeral n"]
  fl_def [of "numeral n / numeral m"] fl_def [of "- (numeral n / numeral m)"]
  fl_def [of "1 / numeral m"] fl_def [of "- (1 / numeral m)"]
  py_round_def [of 0] py_round_def [of 1] py_round_def [of "- 1"]
  py_round_def [of "numeral n"] py_round_def [of "- numeral n"]
  py_round_def [of "numeral n / numeral m"] py_round_def [of "- (numeral n / numeral m)"]
  py_round_def [of "1 / numeral m"] py_round_def [of "- (1 / numeral m)"]
  binary_exponent.simps [of 0] binary_exponent.simps [of 1]
  binary_exponent.simps [of "numeral n"]
  binary_exponent.simps [of "numeral n / numeral m"] binary_exponent.simps [of "1 / numeral m"]
  Let_def
  for n m

text \<open>The arithmetic of the model on the inputs where the floats are known.\<close>

lemma fl_known_values:
  "fl (33 / 10) = 7430939385161318 / 2 ^ 51"
  "fl (fl (1 / 10) + fl (2 / 10)) = 5404319552844596 / 2 ^ 54"
  "fl (3 / 10) = 5404319552844595 / 2 ^ 54"
  "fl (1000 * fl (20 / 100)) = 200"
  by (simp_all add: fl_eval)

section \<open>Properties of the signals\<close>

lemma py_int_nonneg: "0 \<le> x \<Longrightarrow> py_int x = \<lfloor>x\<rfloor>"
  by (simp add: py_int_def)

lemma fl_product_nonneg: "0 \<le> a \<Longrightarrow> 0 \<le> fl (fl a * fl 3.3)"
  by (intro fl_nonneg mult_nonneg_nonneg) simp_all

text \<open>
  C7 as the code has it.  Where the latest RSI is defined: below the oversold threshold there
  is exactly one bullish RSI signal, with confidence min(100, (oversold - rsi) * 3.3 cut to
  its integral part); otherwise, above the overbought threshold, exactly one bearish one,
  with confidence min(100, (rsi - overbought) * 3.3 cut to its integral part); otherwise
  none.  The difference and the product are those of the floats, and the product is
  truncated by \<^verbatim>\<open>int\<close>, not rounded.
\<close>

theorem rsi_signal_truncated_confidence:
  assumes "ta_rsi ta closes (rsi_period self) = Some rsi" and "rsi \<noteq> []" and "last rsi = Some x"
  shows "(x < of_int (rsi_oversold self) \<longrightarrow>
            rsi_signals ta self closes coin now =
              [make_signal coin ''bullish''
                 (min 100 \<lfloor>fl (fl (of_int (rsi_oversold self) - x) * fl 3.3)\<rfloor>)
                 ''technical/rsi_oversold'' now]) \<and>
         (\<not> x < of_int (rsi_oversold self) \<and> of_int (rsi_overbought self) < x \<longrightarrow>
            rsi_signals ta self closes coin now =
              [make_signal coin ''bearish''
                 (min 100 \<lfloor>fl (fl (x - of_int (rsi_overbought self)) * fl 3.3)\<rfloor>)
                 ''technical/rsi_overbought'' now]) \<and>
         (\<not> x < of_int (rsi_oversold self) \<and> \<not> of_int (rsi_overbought self) < x \<longrightarrow>
            rsi_signals ta self closes coin now = [])"
  using assms by (simp add: rsi_signals_def py_int_nonneg fl_product_nonneg)

theorem rsi_signal_truncated_confidence_witness:
  "rsi_signals (fixed_ta (Some 20) (None, None) (\<lambda>n. (None, None))) default_processor [] ''BTC/USD'' 0
     = [make_signal ''BTC/USD'' ''bullish'' 33 ''technical/rsi_oversold'' 0] \<and>
   rsi_signals (fixed_ta (Some 85) (None, None) (\<lambda>n. (None, None))) default_processor [] ''BTC/USD'' 0
     = [make_signal ''BTC/USD'' ''bearish'' 49 ''technical/rsi_overbought'' 0] \<and>
   rsi_signals (fixed_ta (Some 50) (None, None) (\<lambda>n. (None, None))) default_processor [] ''BTC/USD'' 0
     = [] \<and>
   rsi_signals (fixed_ta (Some (fl (10 / 3))) (None, None) (\<lambda>n. (None, None))) default_processor []
     ''BTC/USD'' 0
     = [make_signal ''BTC/USD'' ''bullish'' 88 ''technical/rsi_oversold'' 0]"
proof -
  let ?ta = "\<lambda>x. fixed_ta (Some x) (None, None) (\<lambda>n. (None, None))"
  have a: "ta_rsi (?ta x) [] (rsi_period default_processor) = Some [Some x]" for x
    by (simp add: fixed_ta_def)
  have n: "[Some x] \<noteq> []" and l: "last [Some x] = Some x" for x :: real
    by simp_all
  have lo: "(20::real) < of_int (rsi_oversold default_processor)"
    by (simp add: default_processor_def)
  have hi: "\<not> (85::real) < of_int (rsi_oversold default_processor) \<and>
            of_int (rsi_overbought default_processor) < (85::real)"
    by (simp add: default_processor_def)
  have mid: "\<not> (50::real) < of_int (rsi_oversold default_processor) \<and>
            \<not> of_int (rsi_overbought default_processor) < (50::real)"
    by (simp add: default_processor_def)
  have third: "fl (10 / 3) < of_int (rsi_oversold default_processor)"
    by (simp add: default_processor_def fl_eval)
  from rsi_signal_truncated_confidence [OF a n l, of 20 "''BTC/USD''" 0] lo
  have 1: "rsi_signals (?ta 20) default_processor [] ''BTC/USD'' 0
     = [make_signal ''BTC/USD'' ''bullish'' 33 ''technical/rsi_oversold'' 0]"
    by (simp add: default_processor_def fl_eval)
  from rsi_signal_truncated_confidence [OF a n l, of 85 "''BTC/USD''" 0] hi
  have 2: "rsi_signals (?ta 85) default_processor [] ''BTC/USD'' 0
     = [make_signal ''BTC/USD'' ''bearish'' 49 ''technical/rsi_overbought'' 0]"
    by (simp add: default_processor_def fl_eval)
  from rsi_signal_truncated_confidence [OF a n l, of 50 "''BTC/USD''" 0] mid
  have 3: "rsi_signals (?ta 50) default_processor [] ''BTC/USD'' 0 = []"
    by blast
  from rsi_signal_truncated_confidence [OF a n l, of "fl (10 / 3)" "''BTC/USD''" 0] third
  have 4: "rsi_signals (?ta (fl (10 / 3))) default_processor [] ''BTC/USD'' 0
     = [make_signal ''BTC/USD'' ''bullish'' 88 ''technical/rsi_oversold'' 0]"
    by (simp add: default_processor_def fl_eval)
  from 1 2 3 4 show ?thesis by simp
qed

text \<open>
  With rounding the claim fails: at an RSI of 29.5 and the threshold 30 the product is 1.65
  (the float next below it), whose integral part is 1, while it rounds to 2.
\<close>

theorem rsi_confidence_rounded_counterexample:
  "map confidence
     (rsi_signals (fixed_ta (Some 29.5) (None, None) (\<lambda>n. (None, None))) default_processor []
        ''BTC/USD'' 0) = [1] \<and>
   min 100 (py_round (fl (fl (of_int (rsi_oversold default_processor) - 29.5) * fl 3.3))) = 2 \<and>
   min 100 (round ((of_int (rsi_oversold default_processor) - 29.5) * 3.3 :: real)) = 2"
  by (simp add: rsi_signals_def fixed_ta_def default_processor_def make_signal_def py_int_def
      round_def fl_eval)

section \<open>Properties of the decision\<close>















section \<open>No look-ahead\<close>

lemma bind_err_simps [simp]:
  "bind_err (Inl e) f = Inl e"
  "bind_err (Inr x) f = f x"
  by (simp_all add: bind_err_def)

lemma run_loop_append:
  "run_loop score ta self cs (xs @ ys) st =
     bind_err (run_loop score ta self cs xs st) (run_loop score ta self cs ys)"
  by (induction xs arbitrary: st) (simp_all split: sum.splits)

lemma step_prefix:
  assumes "take (Suc i) cs = take (Suc i) cs'"
  shows "step score ta self cs i st = step score ta self cs' i st"
proof -
  have "cs ! i = take (Suc i) cs ! i" by simp
  also have "\<dots> = take (Suc i) cs' ! i" by (simp only: assms)
  also have "\<dots> = cs' ! i" by simp
  finally have "cs ! i = cs' ! i" .
  with assms show ?thesis by (simp add: step_def)
qed

lemma take_prefix:
  assumes "take (Suc i) cs = take (Suc i) cs'" and "j \<le> i"
  shows "take (Suc j) cs = take (Suc j) cs'"
proof -
  have "take (Suc j) cs = take (Suc j) (take (Suc i) cs)"
    using assms(2) by (simp add: min_def)
  also have "\<dots> = take (Suc j) (take (Suc i) cs')" by (simp only: assms(1))
  also have "\<dots> = take (Suc j) cs'"
    using assms(2) by (simp add: min_def)
  finally show ?thesis .
qed

lemma run_loop_prefix:
  assumes "take (Suc i) cs = take (Suc i) cs'" and "\<forall>j\<in>set js. j \<le> i"
  shows "run_loop score ta self cs js st = run_loop score ta self cs' js st"
  using assms(2)
proof (induction js arbitrary: st)
  case Nil
  show ?case by simp
next
  case (Cons j js)
  then have "j \<le> i" by simp
  then have "step score ta self cs j st = step score ta self cs' j st"
    by (intro step_prefix take_prefix [OF assms(1)])
  with Cons show ?case by (simp split: sum.splits)
qed

lemma initial_state_prefix:
  assumes "take (Suc i) cs = take (Suc i) cs'"
  shows "initial_state self cs = initial_state self cs'"
proof -
  have "hd cs = hd (take (Suc i) cs)" by (cases cs) simp_all
  also have "\<dots> = hd (take (Suc i) cs')" by (simp only: assms)
  also have "\<dots> = hd cs'" by (cases cs') simp_all
  finally show ?thesis by (simp add: initial_state_def)
qed

text \<open>The loop of \<^verbatim>\<open>run\<close> passes through the state after each of its indices.\<close>

lemma run_loop_through_state_after:
  assumes "30 \<le> i" and "i < length cs"
  shows "run_loop score ta self cs [30..<length cs] (initial_state self cs) =
         bind_err (state_after score ta self cs i) (run_loop score ta self cs [Suc i..<length cs])"
proof -
  have "[30..<length cs] = [30..<Suc i] @ [Suc i..<length cs]"
  proof -
    from assms obtain k where k: "length cs = Suc i + k"
      by (metis Suc_leI le_Suc_ex)
    from assms(1) have "30 \<le> Suc i" by simp
    then show ?thesis unfolding k by (rule upt_add_eq_append)
  qed
  then show ?thesis by (simp add: run_loop_append state_after_def)
qed

text \<open>
  C9.  The signals of the step of index \<open>i\<close>, and the whole state of the run after that
  step (portfolio, trades, equity curve, peak and drawdown), are the same for two candle
  series that agree up to and including the index \<open>i\<close>: nothing at a later index is read.
\<close>

theorem no_lookahead:
  assumes "take (Suc i) cs = take (Suc i) cs'"
  shows "process ta (indicator_params self) (take (i + 1) cs)
           = process ta (indicator_params self) (take (i + 1) cs') \<and>
         state_after score ta self cs i = state_after score ta self cs' i"
proof -
  have "run_loop score ta self cs [30..<Suc i] (initial_state self cs)
      = run_loop score ta self cs' [30..<Suc i] (initial_state self cs)"
    by (rule run_loop_prefix [OF assms]) auto
  then show ?thesis
    using assms by (simp add: state_after_def initial_state_prefix [OF assms])
qed

theorem no_lookahead_witness:
  "take (Suc 30) (candles_of (\<lambda>i. 50000 - 1000 * real i) 32)
     = take (Suc 30) (candles_of (\<lambda>i. if i = 31 then 99999 else 50000 - 1000 * real i) 32) \<and>
   candles_of (\<lambda>i. 50000 - 1000 * real i) 32 ! 31
     \<noteq> candles_of (\<lambda>i. if i = 31 then 99999 else 50000 - 1000 * real i) 32 ! 31 \<and>
   state_after spec_score spec_ta default_runner (candles_of (\<lambda>i. 50000 - 1000 * real i) 32) 30
     = state_after spec_score spec_ta default_runner
         (candles_of (\<lambda>i. if i = 31 then 99999 else 50000 - 1000 * real i) 32) 30"
proof -
  have same: "take (Suc 30) (candles_of (\<lambda>i. 50000 - 1000 * real i) 32)
     = take (Suc 30) (candles_of (\<lambda>i. if i = 31 then 99999 else 50000 - 1000 * real i) 32)"
    by (simp add: candles_of_def take_map)
  have later: "candles_of (\<lambda>i. 50000 - 1000 * real i) 32 ! 31
     \<noteq> candles_of (\<lambda>i. if i = 31 then 99999 else 50000 - 1000 * real i) 32 ! 31"
    by (simp add: candles_of_def candle_at_def)
  from no_lookahead [OF same, of spec_ta default_runner spec_score] same later
  show ?thesis by blast
qed

section \<open>The maximal drawdown\<close>

lemma track_drawdown_peak: "fst (track_drawdown (pk, md) v) = max pk v"
  by (simp add: track_drawdown_def Let_def max_def)

lemma track_drawdown_max:
  "snd (track_drawdown (pk, md) v) =
     max md (if max pk v > 0 then fl (fl (fl (max pk v - v) / max pk v) * 100) else 0)"
  by (simp add: track_drawdown_def Let_def max_def)

lemma foldl_track_peak: "fst (foldl track_drawdown (c, m) vs) = running_peak c vs"
proof (induction vs rule: rev_induct)
  case Nil
  show ?case by (simp add: running_peak_def)
next
  case (snoc v vs)
  obtain pk md where f: "foldl track_drawdown (c, m) vs = (pk, md)" by force
  with snoc show ?case by (simp add: track_drawdown_peak running_peak_def)
qed

lemma drawdown_at_snoc: "k < length vs \<Longrightarrow> drawdown_at c (vs @ [v]) k = drawdown_at c vs k"
  by (simp add: drawdown_at_def nth_append Let_def)

lemma foldl_track_max:
  "snd (foldl track_drawdown (c, m) vs) = foldl max m (map (drawdown_at c vs) [0..<length vs])"
proof (induction vs rule: rev_induct)
  case Nil
  show ?case by simp
next
  case (snoc v vs)
  obtain pk md where f: "foldl track_drawdown (c, m) vs = (pk, md)" by force
  have pk: "pk = running_peak c vs" using foldl_track_peak [of c m vs] f by simp
  have md: "md = foldl max m (map (drawdown_at c vs) [0..<length vs])" using snoc f by simp
  have old: "map (drawdown_at c (vs @ [v])) [0..<length vs] = map (drawdown_at c vs) [0..<length vs]"
    by (simp add: drawdown_at_snoc)
  have new: "drawdown_at c (vs @ [v]) (length vs)
      = (if max pk v > 0 then fl (fl (fl (max pk v - v) / max pk v) * 100) else 0)"
    by (simp add: drawdown_at_def running_peak_def pk Let_def)
  show ?case
    by (simp add: f track_drawdown_max old new md)
qed

lemma foldl_max_ge: "(m::real) \<le> foldl max m xs"
proof (induction xs rule: rev_induct)
  case Nil
  show ?case by simp
next
  case (snoc x xs)
  then show ?case by simp
qed

lemma foldl_max_eq_start:
  "(foldl max (m::real) xs = m) = (\<forall>x\<in>set xs. x \<le> m)"
proof (induction xs rule: rev_induct)
  case Nil
  show ?case by simp
next
  case (snoc x xs)
  have ge: "m \<le> foldl max m xs" by (rule foldl_max_ge)
  show ?case
  proof
    assume a: "foldl max m (xs @ [x]) = m"
    then have "max (foldl max m xs) x = m" by simp
    with ge have "foldl max m xs = m" and "x \<le> m" by (simp_all add: max_def split: if_splits)
    with snoc show "\<forall>y\<in>set (xs @ [x]). y \<le> m" by simp
  next
    assume a: "\<forall>y\<in>set (xs @ [x]). y \<le> m"
    with snoc have "foldl max m xs = m" and "x \<le> m" by simp_all
    then show "foldl max m (xs @ [x]) = m" by simp
  qed
qed

lemma running_peak_snoc: "running_peak c (vs @ [v]) = max (running_peak c vs) v"
  by (simp add: running_peak_def)

lemma running_peak_ge_start: "c \<le> running_peak c vs"
  unfolding running_peak_def by (rule foldl_max_ge)

lemma drawdown_at_split:
  assumes "k < length vs"
  shows "drawdown_at c vs k =
     (if max (running_peak c (take k vs)) (vs ! k) > 0
      then fl (fl (fl (max (running_peak c (take k vs)) (vs ! k) - vs ! k)
                   / max (running_peak c (take k vs)) (vs ! k)) * 100)
      else 0)"
  using assms by (simp add: drawdown_at_def Let_def take_Suc_conv_app_nth running_peak_snoc)

lemma drawdown_at_nonneg: "k < length vs \<Longrightarrow> 0 \<le> drawdown_at c vs k"
  by (simp add: drawdown_at_split fl_nonneg)

lemma max_drawdown_of_nonneg: "0 \<le> max_drawdown_of c vs"
  unfolding max_drawdown_of_def by (rule foldl_max_ge)

lemma drawdown_at_zero:
  assumes "k < length vs" and "0 < c"
  shows "(drawdown_at c vs k \<le> 0) = (running_peak c (take k vs) \<le> vs ! k)"
proof -
  define p where "p = running_peak c (take k vs)"
  define M where "M = max p (vs ! k)"
  have p: "0 < p" using assms(2) running_peak_ge_start [of c "take k vs"] by (simp add: p_def)
  then have m: "0 < M" by (simp add: M_def)
  have d: "drawdown_at c vs k = fl (fl (fl (M - vs ! k) / M) * 100)"
    unfolding M_def p_def using m [unfolded M_def p_def]
    by (simp only: drawdown_at_split [OF assms(1)] if_True)
  have "0 \<le> drawdown_at c vs k" using assms(1) by (rule drawdown_at_nonneg)
  then have "(drawdown_at c vs k \<le> 0) = (drawdown_at c vs k = 0)" by linarith
  also have "\<dots> = (M - vs ! k = 0)"
    using m by (simp add: d fl_zero_iff)
  also have "\<dots> = (p \<le> vs ! k)" by (simp add: M_def max_def)
  finally show ?thesis by (simp add: p_def)
qed

lemma max_drawdown_of_zero:
  assumes "0 < c"
  shows "(max_drawdown_of c vs = 0) = (\<forall>k<length vs. running_peak c (take k vs) \<le> vs ! k)"
proof -
  have "(max_drawdown_of c vs = 0) = (\<forall>k<length vs. drawdown_at c vs k \<le> 0)"
    by (auto simp: max_drawdown_of_def foldl_max_eq_start)
  also have "\<dots> = (\<forall>k<length vs. running_peak c (take k vs) \<le> vs ! k)"
    using assms by (simp add: drawdown_at_zero)
  finally show ?thesis .
qed

lemma run_loop_values:
  assumes "run_loop score ta self cs js st = Inr st'"
  shows "(st_peak st', st_max_drawdown st')
           = foldl track_drawdown (st_peak st, st_max_drawdown st) (loop_values score ta self cs js st) \<and>
         map snd (st_equity_curve st')
           = map snd (st_equity_curve st) @ map py_round2 (loop_values score ta self cs js st) \<and>
         length (loop_values score ta self cs js st) = length js"
  using assms
proof (induction js arbitrary: st)
  case Nil
  then show ?case by simp
next
  case (Cons j js)
  from Cons.prems obtain st1 where s1: "step score ta self cs j st = Inr st1"
    and rest: "run_loop score ta self cs js st1 = Inr st'"
    by (auto split: sum.splits)
  let ?v = "portfolio_value (ex_portfolio (st_executor st1)) (c_close (cs ! j))"
  from s1 have pm: "(st_peak st1, st_max_drawdown st1)
      = track_drawdown (st_peak st, st_max_drawdown st) ?v"
    and curve: "st_equity_curve st1 = st_equity_curve st @ [(c_timestamp (cs ! j), py_round2 ?v)]"
    by (auto simp: step_def Let_def bind_err_def split: sum.splits)
  from Cons.IH [OF rest] show ?case
    by (simp add: s1 pm [symmetric] curve)
qed

lemmas run_eval =
  run_def run_backtest_def post_run_def click_run_def run_disabled_def request_of_params_def
  as_int_def runner_of_def results_of_def win_rate_def DEFAULTS_def
  step_def initial_state_def act_def execute_buy_def execute_sell_def portfolio_value_def
  track_drawdown_def py_round2_def py_round4_def py_int_def spec_score_def
  count_wins_losses_def
  process_def rsi_signals_def macd_signals_def sma_signals_def make_signal_def iloc_def
  MIN_CANDLES_def SIGNAL_TTL_def
  spec_ta_def spec_rsi_def spec_sma_def spec_macd_def rsi_of_window_def
  default_runner_def default_processor_def candles_of_def candle_at_def
  fl_eval take_map drop_map last_map hd_map o_def

text \<open>
  A run over 32 candles whose closes fall by 1 from 10031.  The RSI is 0 at the index 30, so
  a fifth of the cash buys at 10001; at the index 31 the close is 10000 and the value of the
  portfolio is 999.98 after rounding, a drawdown of 0.002 per cent.
\<close>

lemma small_dip_run:
  "map_sum id (\<lambda>r. (max_drawdown_pct r, map snd (equity_curve r), map price (trades r)))
     (run spec_score spec_ta default_runner (candles_of (\<lambda>i. 10031 - real i) 32))
   = Inr (0, [1000, 1000, fl (49999 / 50)], [10001])"
  by (simp add: run_eval)

text \<open>
  A run with a capital of 2500 and a position size of 5 per cent over 32 candles whose closes
  fall by 1 from 1030.  The runner buys for 125 at 1000; at the index 31 the close is 999 and
  the portfolio is worth 2499.875.  The drawdown in floats is the float next above 0.005,
  and the report says 0.01.
\<close>

lemma boundary_run:
  "map_sum id (\<lambda>r. (max_drawdown_pct r, map snd (equity_curve r), map price (trades r)))
     (run spec_score spec_ta (default_runner\<lparr>capital := 2500, position_size_pct := 5\<rparr>)
        (candles_of (\<lambda>i. 1030 - real i) 32))
   = Inr (fl (1 / 100), [2500, 2500, fl (249988 / 100)], [1000])"
  by (simp add: run_eval)

text \<open>
  C6 as the code has it.  The reported maximal drawdown of a completed run is not negative
  and is the running maximum of the drawdowns of the steps, (peak - value) / peak * 100 in
  floats where the peak is positive and 0 elsewhere, taken on the values before rounding and
  then rounded to two decimals.  So it is 0 exactly when that maximum is at most 0.005; and
  with a positive capital the maximum itself is 0 exactly when no value falls below the
  running peak of the capital and the values before it.
\<close>

theorem max_drawdown_reported:
  assumes "run score ta self cs = Inr report"
  shows "0 \<le> max_drawdown_pct report \<and>
     max_drawdown_pct report
       = py_round2 (max_drawdown_of (capital self) (equity_values score ta self cs)) \<and>
     (max_drawdown_pct report = 0)
       = (max_drawdown_of (capital self) (equity_values score ta self cs) \<le> 1 / 200) \<and>
     (0 < capital self \<longrightarrow>
        (max_drawdown_of (capital self) (equity_values score ta self cs) = 0)
          = (\<forall>k<length (equity_values score ta self cs).
               running_peak (capital self) (take k (equity_values score ta self cs))
                 \<le> equity_values score ta self cs ! k)) \<and>
     map snd (equity_curve report)
       = capital self # map py_round2 (equity_values score ta self cs) \<and>
     length (equity_values score ta self cs) = length cs - 30"
proof -
  let ?vs = "equity_values score ta self cs"
  let ?m = "max_drawdown_of (capital self) ?vs"
  from assms obtain st where
    loop: "run_loop score ta self cs [30..<length cs] (initial_state self cs) = Inr st"
    and md: "max_drawdown_pct report = py_round2 (st_max_drawdown st)"
    and ec: "equity_curve report = st_equity_curve st"
    by (auto simp: run_def Let_def bind_err_def split: if_splits sum.splits)
  from run_loop_values [OF loop]
  have fold: "(st_peak st, st_max_drawdown st) = foldl track_drawdown (capital self, 0) ?vs"
    and curve: "map snd (st_equity_curve st) = capital self # map py_round2 ?vs"
    and len: "length ?vs = length cs - 30"
    by (simp_all add: equity_values_def initial_state_def)
  have "st_max_drawdown st = snd (foldl track_drawdown (capital self, 0) ?vs)"
    using fold by (metis snd_conv)
  then have m: "st_max_drawdown st = ?m"
    by (simp add: foldl_track_max max_drawdown_of_def)
  have nn: "0 \<le> ?m" by (rule max_drawdown_of_nonneg)
  have a: "0 \<le> max_drawdown_pct report"
    using nn by (simp add: md m py_round2_nonneg)
  have b: "max_drawdown_pct report = py_round2 ?m" by (simp add: md m)
  have c: "(max_drawdown_pct report = 0) = (?m \<le> 1 / 200)"
    using nn by (simp only: b py_round2_zero)
  have d: "0 < capital self \<longrightarrow> (?m = 0)
      = (\<forall>k<length ?vs. running_peak (capital self) (take k ?vs) \<le> ?vs ! k)"
    by (simp add: max_drawdown_of_zero)
  have e: "map snd (equity_curve report) = capital self # map py_round2 ?vs"
    by (simp add: ec curve)
  from a b c d e len show ?thesis by blast
qed

theorem max_drawdown_reported_witness:
  "\<exists>report.
     run spec_score spec_ta (default_runner\<lparr>capital := 2500, position_size_pct := 5\<rparr>)
       (candles_of (\<lambda>i. 1030 - real i) 32) = Inr report \<and>
     0 < capital (default_runner\<lparr>capital := 2500, position_size_pct := 5\<rparr>) \<and>
     max_drawdown_pct report = fl (1 / 100) \<and>
     map snd (equity_curve report) = [2500, 2500, fl (249988 / 100)] \<and>
     1 / 200 < max_drawdown_of 2500
       (equity_values spec_score spec_ta (default_runner\<lparr>capital := 2500, position_size_pct := 5\<rparr>)
          (candles_of (\<lambda>i. 1030 - real i) 32)) \<and>
     length (equity_values spec_score spec_ta (default_runner\<lparr>capital := 2500, position_size_pct := 5\<rparr>)
          (candles_of (\<lambda>i. 1030 - real i) 32)) = 2"
proof -
  let ?self = "default_runner\<lparr>capital := 2500, position_size_pct := 5\<rparr>"
  let ?cs = "candles_of (\<lambda>i. 1030 - real i) 32"
  let ?vs = "equity_values spec_score spec_ta ?self ?cs"
  from boundary_run obtain report where run: "run spec_score spec_ta ?self ?cs = Inr report"
    and md: "max_drawdown_pct report = fl (1 / 100)"
    and ec: "map snd (equity_curve report) = [2500, 2500, fl (249988 / 100)]"
    by (cases "run spec_score spec_ta ?self ?cs") auto
  have c: "0 < capital ?self" by simp
  have cap: "capital ?self = 2500" by simp
  note r = max_drawdown_reported [OF run]
  note r3 = r [THEN conjunct2, THEN conjunct2, THEN conjunct1]
  note r6 = r [THEN conjunct2, THEN conjunct2, THEN conjunct2, THEN conjunct2, THEN conjunct2]
  have nz: "fl (1 / 100) \<noteq> 0" by (simp add: fl_zero_iff)
  have m: "1 / 200 < max_drawdown_of 2500 ?vs"
    using r3 nz unfolding md cap by linarith
  have l: "length ?vs = 2"
    using r6 by (simp add: candles_of_def)
  from run c md ec m l show ?thesis
    by (intro exI [of _ report] conjI)
qed

text \<open>
  The claim's equivalence fails by the rounding: in the run of the small dip the equity
  curve falls from 1000 to 999.98, below its peak, and the reported maximal drawdown is 0.
\<close>

theorem max_drawdown_zero_counterexample:
  "map_sum id (\<lambda>r. (max_drawdown_pct r, map snd (equity_curve r)))
     (run spec_score spec_ta default_runner (candles_of (\<lambda>i. 10031 - real i) 32))
     = Inr (0, [1000, 1000, fl (49999 / 50)]) \<and>
   fl (49999 / 50) < 1000"
proof -
  have "fl (49999 / 50) < 1000" by (simp add: fl_eval)
  with small_dip_run show ?thesis
    by (cases "run spec_score spec_ta default_runner (candles_of (\<lambda>i. 10031 - real i) 32)") auto
qed

section \<open>The benchmark on a degenerate first close\<close>



lemma run_backtest_failure_keeps_db:
  assumes "fst (run_backtest score ta req candles nid db) = Inl e"
  shows "snd (run_backtest score ta req candles nid db) = db"
  using assms by (simp add: run_backtest_def Let_def split: if_splits sum.splits)







section \<open>What is checked before the simulation\<close>

lemma as_int_integral: "x = of_int \<lfloor>x\<rfloor> \<Longrightarrow> as_int x = Inr \<lfloor>x\<rfloor>"
  by (simp add: as_int_def)

lemma as_int_fractional: "x \<noteq> of_int \<lfloor>x\<rfloor> \<Longrightarrow> as_int x = Inl ValidationError"
  by (simp add: as_int_def)

lemma request_of_params_accepts:
  assumes "\<forall>x\<in>set [ui_days p, ui_rsi_period p, ui_rsi_oversold p, ui_rsi_overbought p,
                     ui_macd_fast p, ui_macd_slow p, ui_macd_signal p, ui_sma_short p,
                     ui_sma_long p]. x = of_int \<lfloor>x\<rfloor>"
  shows "request_of_params p =
     Inr \<lparr>req_name = Some (ui_name p), req_symbol = ui_symbol p,
          req_timeframe = ui_timeframe p, req_days = \<lfloor>ui_days p\<rfloor>,
          req_capital = ui_capital p, req_position_size_pct = ui_position_size_pct p,
          req_rsi_period = \<lfloor>ui_rsi_period p\<rfloor>, req_rsi_oversold = \<lfloor>ui_rsi_oversold p\<rfloor>,
          req_rsi_overbought = \<lfloor>ui_rsi_overbought p\<rfloor>,
          req_macd_fast = \<lfloor>ui_macd_fast p\<rfloor>, req_macd_slow = \<lfloor>ui_macd_slow p\<rfloor>,
          req_macd_signal = \<lfloor>ui_macd_signal p\<rfloor>,
          req_sma_short = \<lfloor>ui_sma_short p\<rfloor>, req_sma_long = \<lfloor>ui_sma_long p\<rfloor>\<rparr>"
proof -
  from assms have
    "as_int (ui_days p) = Inr \<lfloor>ui_days p\<rfloor>"
    "as_int (ui_rsi_period p) = Inr \<lfloor>ui_rsi_period p\<rfloor>"
    "as_int (ui_rsi_oversold p) = Inr \<lfloor>ui_rsi_oversold p\<rfloor>"
    "as_int (ui_rsi_overbought p) = Inr \<lfloor>ui_rsi_overbought p\<rfloor>"
    "as_int (ui_macd_fast p) = Inr \<lfloor>ui_macd_fast p\<rfloor>"
    "as_int (ui_macd_slow p) = Inr \<lfloor>ui_macd_slow p\<rfloor>"
    "as_int (ui_macd_signal p) = Inr \<lfloor>ui_macd_signal p\<rfloor>"
    "as_int (ui_sma_short p) = Inr \<lfloor>ui_sma_short p\<rfloor>"
    "as_int (ui_sma_long p) = Inr \<lfloor>ui_sma_long p\<rfloor>"
    by (simp_all add: as_int_integral)
  then show ?thesis by (simp add: request_of_params_def)
qed

lemma request_of_params_rejects:
  assumes "\<not> (\<forall>x\<in>set [ui_days p, ui_rsi_period p, ui_rsi_oversold p, ui_rsi_overbought p,
                     ui_macd_fast p, ui_macd_slow p, ui_macd_signal p, ui_sma_short p,
                     ui_sma_long p]. x = of_int \<lfloor>x\<rfloor>)"
  shows "request_of_params p = Inl ValidationError"
  using assms
  by (auto simp: request_of_params_def as_int_def bind_err_def)

text \<open>
  C5 as the code has it.  Before the loop two things are checked.  The request model accepts
  the posted object exactly when each of its nine \<^verbatim>\<open>int\<close> fields holds an integral
  number, whatever the values are, and passes every value on unchanged; otherwise the request
  is refused and nothing runs.  The endpoint refuses fewer than 30 candles with HTTP 400,
  and nothing runs.  With 30 candles or more it calls \<^verbatim>\<open>run\<close> with the capital, the
  position size and the eight indicator parameters of the request as they are: the answer
  and the stored row are those of that run, and a run that raises stores nothing.  No range
  is checked anywhere on this path.
\<close>

theorem request_checks_before_run:
  "((\<forall>x\<in>set [ui_days p, ui_rsi_period p, ui_rsi_oversold p, ui_rsi_overbought p,
              ui_macd_fast p, ui_macd_slow p, ui_macd_signal p, ui_sma_short p,
              ui_sma_long p]. x = of_int \<lfloor>x\<rfloor>) \<longrightarrow>
      request_of_params p =
        Inr \<lparr>req_name = Some (ui_name p), req_symbol = ui_symbol p,
             req_timeframe = ui_timeframe p, req_days = \<lfloor>ui_days p\<rfloor>,
             req_capital = ui_capital p, req_position_size_pct = ui_position_size_pct p,
             req_rsi_period = \<lfloor>ui_rsi_period p\<rfloor>, req_rsi_oversold = \<lfloor>ui_rsi_oversold p\<rfloor>,
             req_rsi_overbought = \<lfloor>ui_rsi_overbought p\<rfloor>,
             req_macd_fast = \<lfloor>ui_macd_fast p\<rfloor>, req_macd_slow = \<lfloor>ui_macd_slow p\<rfloor>,
             req_macd_signal = \<lfloor>ui_macd_signal p\<rfloor>,
             req_sma_short = \<lfloor>ui_sma_short p\<rfloor>, req_sma_long = \<lfloor>ui_sma_long p\<rfloor>\<rparr>) \<and>
   (\<not> (\<forall>x\<in>set [ui_days p, ui_rsi_period p, ui_rsi_oversold p, ui_rsi_overbought p,
                ui_macd_fast p, ui_macd_slow p, ui_macd_signal p, ui_sma_short p,
                ui_sma_long p]. x = of_int \<lfloor>x\<rfloor>) \<longrightarrow>
      post_run score ta p candles nid db = (Inl ValidationError, db)) \<and>
   (length candles < 30 \<longrightarrow>
      run_backtest score ta req candles nid db = (Inl (HTTPException 400), db)) \<and>
   (30 \<le> length candles \<longrightarrow>
      run_backtest score ta req candles nid db =
        (case run score ta
                \<lparr>capital = req_capital req, position_size_pct = req_position_size_pct req,
                 indicator_params =
                   \<lparr>rsi_period = req_rsi_period req, rsi_oversold = req_rsi_oversold req,
                    rsi_overbought = req_rsi_overbought req, macd_fast = req_macd_fast req,
                    macd_slow = req_macd_slow req, macd_signal = req_macd_signal req,
                    sma_short = req_sma_short req, sma_long = req_sma_long req\<rparr>\<rparr>
                candles of
           Inl e \<Rightarrow> (Inl e, db)
         | Inr report \<Rightarrow>
             (Inr (nid, results_of report),
              db @ [\<lparr>row_id = nid, row_name = req_name req, row_symbol = req_symbol req,
                     row_timeframe = req_timeframe req, row_days = req_days req,
                     row_params = req, row_results = results_of report\<rparr>])))"
proof -
  have b: "post_run score ta p candles nid db = (Inl ValidationError, db)"
    if "\<not> (\<forall>x\<in>set [ui_days p, ui_rsi_period p, ui_rsi_oversold p, ui_rsi_overbought p,
                ui_macd_fast p, ui_macd_slow p, ui_macd_signal p, ui_sma_short p,
                ui_sma_long p]. x = of_int \<lfloor>x\<rfloor>)"
    using request_of_params_rejects [OF that] by (simp add: post_run_def)
  have c: "length candles < 30 \<longrightarrow>
      run_backtest score ta req candles nid db = (Inl (HTTPException 400), db)"
    by (simp add: run_backtest_def)
  have d: "30 \<le> length candles \<longrightarrow>
      run_backtest score ta req candles nid db =
        (case run score ta
                \<lparr>capital = req_capital req, position_size_pct = req_position_size_pct req,
                 indicator_params =
                   \<lparr>rsi_period = req_rsi_period req, rsi_oversold = req_rsi_oversold req,
                    rsi_overbought = req_rsi_overbought req, macd_fast = req_macd_fast req,
                    macd_slow = req_macd_slow req, macd_signal = req_macd_signal req,
                    sma_short = req_sma_short req, sma_long = req_sma_long req\<rparr>\<rparr>
                candles of
           Inl e \<Rightarrow> (Inl e, db)
         | Inr report \<Rightarrow>
             (Inr (nid, results_of report),
              db @ [\<lparr>row_id = nid, row_name = req_name req, row_symbol = req_symbol req,
                     row_timeframe = req_timeframe req, row_days = req_days req,
                     row_params = req, row_results = results_of report\<rparr>]))"
    by (simp add: run_backtest_def runner_of_def Let_def split: sum.splits)
  from request_of_params_accepts [of p] b c d show ?thesis by blast
qed

text \<open>
  A position size of 150 per cent with the short average longer than the long one, on 31
  candles that fall by 1000 from 50000: the RSI is 0 at the index 30 and the runner buys
  for 1500 with a cash of 1000.
\<close>

lemma out_of_range_request:
  "request_of_params
     (DEFAULTS\<lparr>ui_position_size_pct := 150, ui_sma_short := 20, ui_sma_long := 10\<rparr>)
   = Inr (defaults_request\<lparr>req_position_size_pct := 150, req_sma_short := 20,
                            req_sma_long := 10\<rparr>)"
  by (simp add: request_of_params_def as_int_def DEFAULTS_def defaults_request_def)

lemma out_of_range_run:
  "run spec_score spec_ta
     (runner_of (defaults_request\<lparr>req_position_size_pct := 150, req_sma_short := 20,
                                   req_sma_long := 10\<rparr>))
     (candles_of (\<lambda>i. 50000 - 1000 * real i) 31) =
     Inr \<lparr>starting_capital = 1000, final_value = 1000, total_return_pct = 0,
          buy_hold_return_pct = - 60, trade_count = 1, win_count = 0, loss_count = 0,
          trades = [\<lparr>t_coin = ''BTC/USD'', side = ''buy'', t_quantity = fl (3 / 40),
                     price = 20000, amount = 1500, t_timestamp = 1704175200\<rparr>],
          equity_curve = [(1704067200, 1000), (1704175200, 1000)],
          max_drawdown_pct = 0\<rparr>"
  by (simp add: run_eval defaults_request_def)

theorem request_checks_before_run_witness:
  "(request_of_params
      (DEFAULTS\<lparr>ui_position_size_pct := 150, ui_sma_short := 20, ui_sma_long := 10\<rparr>)
    = Inr (defaults_request\<lparr>req_position_size_pct := 150, req_sma_short := 20,
                             req_sma_long := 10\<rparr>)) \<and>
   (post_run spec_score spec_ta (DEFAULTS\<lparr>ui_rsi_period := 14.5\<rparr>)
      (candles_of (\<lambda>i. 50000 - 1000 * real i) 31) ''run-1'' [] = (Inl ValidationError, [])) \<and>
   (length (candles_of (\<lambda>i. 100) 29) < 30 \<and>
    run_backtest spec_score spec_ta defaults_request (candles_of (\<lambda>i. 100) 29) ''run-1'' []
      = (Inl (HTTPException 400), [])) \<and>
   (30 \<le> length (candles_of (\<lambda>i. 50000 - 1000 * real i) 31) \<and>
    (\<exists>doc row. run_backtest spec_score spec_ta
                  (defaults_request\<lparr>req_position_size_pct := 150, req_sma_short := 20,
                                      req_sma_long := 10\<rparr>)
                  (candles_of (\<lambda>i. 50000 - 1000 * real i) 31) ''run-1'' []
            = (Inr (''run-1'', doc), [row]) \<and> doc_trade_count doc = 1))"
proof -
  let ?wide = "DEFAULTS\<lparr>ui_position_size_pct := 150, ui_sma_short := 20, ui_sma_long := 10\<rparr>"
  let ?bad = "DEFAULTS\<lparr>ui_rsi_period := 14.5\<rparr>"
  let ?req = "defaults_request\<lparr>req_position_size_pct := 150, req_sma_short := 20,
                                req_sma_long := 10\<rparr>"
  let ?fall = "candles_of (\<lambda>i. 50000 - 1000 * real i) 31"
  let ?few = "candles_of (\<lambda>i. 100) 29"
  have integral: "\<forall>x\<in>set [ui_days ?wide, ui_rsi_period ?wide, ui_rsi_oversold ?wide,
      ui_rsi_overbought ?wide, ui_macd_fast ?wide, ui_macd_slow ?wide, ui_macd_signal ?wide,
      ui_sma_short ?wide, ui_sma_long ?wide]. x = of_int \<lfloor>x\<rfloor>"
    by (simp add: DEFAULTS_def)
  have fractional: "\<not> (\<forall>x\<in>set [ui_days ?bad, ui_rsi_period ?bad, ui_rsi_oversold ?bad,
      ui_rsi_overbought ?bad, ui_macd_fast ?bad, ui_macd_slow ?bad, ui_macd_signal ?bad,
      ui_sma_short ?bad, ui_sma_long ?bad]. x = of_int \<lfloor>x\<rfloor>)"
    by (simp add: DEFAULTS_def)
  have few: "length ?few < 30" by (simp add: candles_of_def)
  have many: "30 \<le> length ?fall" by (simp add: candles_of_def)
  note t1 = request_checks_before_run [where p = ?wide and score = spec_score and ta = spec_ta
      and candles = ?fall and nid = "''run-1''" and db = "[]" and req = ?req]
  note t2 = request_checks_before_run [where p = ?bad and score = spec_score and ta = spec_ta
      and candles = ?fall and nid = "''run-1''" and db = "[]" and req = ?req]
  note t3 = request_checks_before_run [where p = ?bad and score = spec_score and ta = spec_ta
      and candles = ?few and nid = "''run-1''" and db = "[]" and req = defaults_request]
  from t1 integral have "request_of_params ?wide =
        Inr \<lparr>req_name = Some (ui_name ?wide), req_symbol = ui_symbol ?wide,
             req_timeframe = ui_timeframe ?wide, req_days = \<lfloor>ui_days ?wide\<rfloor>,
             req_capital = ui_capital ?wide, req_position_size_pct = ui_position_size_pct ?wide,
             req_rsi_period = \<lfloor>ui_rsi_period ?wide\<rfloor>, req_rsi_oversold = \<lfloor>ui_rsi_oversold ?wide\<rfloor>,
             req_rsi_overbought = \<lfloor>ui_rsi_overbought ?wide\<rfloor>,
             req_macd_fast = \<lfloor>ui_macd_fast ?wide\<rfloor>, req_macd_slow = \<lfloor>ui_macd_slow ?wide\<rfloor>,
             req_macd_signal = \<lfloor>ui_macd_signal ?wide\<rfloor>,
             req_sma_short = \<lfloor>ui_sma_short ?wide\<rfloor>, req_sma_long = \<lfloor>ui_sma_long ?wide\<rfloor>\<rparr>"
    by blast
  then have a: "request_of_params ?wide = Inr ?req"
    by (simp add: DEFAULTS_def defaults_request_def)
  from t2 fractional
  have b: "post_run spec_score spec_ta ?bad ?fall ''run-1'' [] = (Inl ValidationError, [])"
    by blast
  from t3 few have c: "run_backtest spec_score spec_ta defaults_request ?few ''run-1'' []
      = (Inl (HTTPException 400), [])"
    by blast
  from t1 many have "run_backtest spec_score spec_ta ?req ?fall ''run-1'' [] =
        (case run spec_score spec_ta
                \<lparr>capital = req_capital ?req, position_size_pct = req_position_size_pct ?req,
                 indicator_params =
                   \<lparr>rsi_period = req_rsi_period ?req, rsi_oversold = req_rsi_oversold ?req,
                    rsi_overbought = req_rsi_overbought ?req, macd_fast = req_macd_fast ?req,
                    macd_slow = req_macd_slow ?req, macd_signal = req_macd_signal ?req,
                    sma_short = req_sma_short ?req, sma_long = req_sma_long ?req\<rparr>\<rparr>
                ?fall of
           Inl e \<Rightarrow> (Inl e, [])
         | Inr report \<Rightarrow>
             (Inr (''run-1'', results_of report),
              [] @ [\<lparr>row_id = ''run-1'', row_name = req_name ?req, row_symbol = req_symbol ?req,
                     row_timeframe = req_timeframe ?req, row_days = req_days ?req,
                     row_params = ?req, row_results = results_of report\<rparr>]))"
    by blast
  then have d: "\<exists>doc row. run_backtest spec_score spec_ta ?req ?fall ''run-1'' []
            = (Inr (''run-1'', doc), [row]) \<and> doc_trade_count doc = 1"
    using out_of_range_run by (simp add: runner_of_def results_of_def)
  from a b few c many d show ?thesis by (intro conjI)
qed

text \<open>
  The claim fails on this request: none of its values is refused, the step of the index 30
  runs and buys, and the row is stored.
\<close>

theorem out_of_range_accepted_counterexample:
  "\<not> ((0::real) < 150 \<and> (150::real) \<le> 100) \<and> \<not> ((20::int) < 10) \<and>
   post_run spec_score spec_ta
     (DEFAULTS\<lparr>ui_position_size_pct := 150, ui_sma_short := 20, ui_sma_long := 10\<rparr>)
     (candles_of (\<lambda>i. 50000 - 1000 * real i) 31) ''run-1'' []
   = (Inr (''run-1'',
           \<lparr>doc_total_return_pct = 0, doc_buy_hold_return_pct = - 60, doc_final_value = 1000,
            doc_trade_count = 1, doc_win_count = 0, doc_loss_count = 0, doc_win_rate = 0,
            doc_max_drawdown_pct = 0,
            doc_equity_curve = [(1704067200, 1000), (1704175200, 1000)]\<rparr>),
      [\<lparr>row_id = ''run-1'', row_name = Some [], row_symbol = ''BTC/USD'', row_timeframe = ''1h'',
        row_days = 90,
        row_params = defaults_request\<lparr>req_position_size_pct := 150, req_sma_short := 20,
                                         req_sma_long := 10\<rparr>,
        row_results =
          \<lparr>doc_total_return_pct = 0, doc_buy_hold_return_pct = - 60, doc_final_value = 1000,
           doc_trade_count = 1, doc_win_count = 0, doc_loss_count = 0, doc_win_rate = 0,
           doc_max_drawdown_pct = 0,
           doc_equity_curve = [(1704067200, 1000), (1704175200, 1000)]\<rparr>\<rparr>])"
proof -
  have l: "\<not> length (candles_of (\<lambda>i. 50000 - 1000 * real i) 31) < 30"
    by (simp add: candles_of_def)
  show ?thesis
    unfolding post_run_def out_of_range_request sum.case run_backtest_def out_of_range_run
    using l
    by (simp add: results_of_def win_rate_def py_round2_def py_round4_def
        defaults_request_def fl_eval)
qed

section \<open>What the form sends and the engine does not read\<close>













section \<open>The toggles of the indicators\<close>









end
